theory Spec2Isabelle
  imports Main "HOL-Library.Monad_Syntax"
begin

unbundle bit_operations_syntax

section \<open>Python values used by the controller\<close>

text \<open>
  The embedding follows \<^verbatim>\<open>tascam_controller.py\<close>. A Python \<^verbatim>\<open>str\<close> is a
  \<^typ>\<open>string\<close> whose characters stand for the code points below 256; a \<^verbatim>\<open>bytes\<close>
  or \<^verbatim>\<open>bytearray\<close> value is a list of the same 8-bit characters. Exceptions are
  values of \<open>py_error\<close>. Wall-clock time (\<^verbatim>\<open>time.time()\<close>) is an integer number of
  milliseconds handed in by the environment; \<^verbatim>\<open>time.sleep\<close> and logging have no
  effect on the state and are left out.
\<close>

type_synonym bytes = "char list"

datatype py_error = ValueError | UnicodeEncodeError | RuntimeError

definition LF :: char where
  "LF = CHR 0x0A"

definition CR :: char where
  "CR = CHR 0x0D"

definition is_ascii :: "char \<Rightarrow> bool" where
  "is_ascii c \<longleftrightarrow> (of_char c :: nat) < 128"

text \<open>\<^verbatim>\<open>s.encode('ascii')\<close>: raises on the first character outside ASCII.\<close>

definition encode_ascii :: "string \<Rightarrow> py_error + bytes" where
  "encode_ascii s = (if list_all is_ascii s then Inr s else Inl UnicodeEncodeError)"

text \<open>\<^verbatim>\<open>b.decode('ascii', errors='ignore')\<close>: bytes outside ASCII are dropped.\<close>

definition decode_ascii_ignore :: "bytes \<Rightarrow> string" where
  "decode_ascii_ignore b = filter is_ascii b"

text \<open>\<^verbatim>\<open>d.get(k, default)\<close> on a dictionary literal, kept as an association list.\<close>

definition dict_get :: "('k \<times> 'v) list \<Rightarrow> 'k \<Rightarrow> 'v \<Rightarrow> 'v" where
  "dict_get d k dflt = (case map_of d k of None \<Rightarrow> dflt | Some v \<Rightarrow> v)"

text \<open>
  \<^verbatim>\<open>int(c)\<close> for a one-character string \<open>c\<close>: the value of a decimal digit,
  \<^verbatim>\<open>ValueError\<close> (here \<open>None\<close>) for every other character below 256.
\<close>

definition is_digit :: "char \<Rightarrow> bool" where
  "is_digit c \<longleftrightarrow> (48::nat) \<le> of_char c \<and> (of_char c :: nat) \<le> 57"

definition int_of_char :: "char \<Rightarrow> int option" where
  "int_of_char c = (if is_digit c then Some (int (of_char c) - 48) else None)"

text \<open>
  \<^verbatim>\<open>int(s, 16)\<close> for a string of at most two characters, as \<^verbatim>\<open>data[:2]\<close> is:
  surrounding white space is stripped, one sign is allowed, and what is left must be one
  or two hexadecimal digits (a bare \<^verbatim>\<open>0x\<close> prefix or an underscore leaves nothing
  valid). The white space stripped is tab, line feed, vertical tab, form feed, carriage
  return, space, and of the code points from 128 on the next-line and no-break-space
  characters; the separators \<^verbatim>\<open>0x1C\<close> to \<^verbatim>\<open>0x1F\<close> are not stripped.
\<close>

definition hex_val :: "char \<Rightarrow> int option" where
  "hex_val c =
     (let n = (of_char c :: nat) in
      if 48 \<le> n \<and> n \<le> 57 then Some (int n - 48)
      else if 65 \<le> n \<and> n \<le> 70 then Some (int n - 55)
      else if 97 \<le> n \<and> n \<le> 102 then Some (int n - 87)
      else None)"

definition is_space :: "char \<Rightarrow> bool" where
  "is_space c \<longleftrightarrow>
     (let n = (of_char c :: nat) in (9 \<le> n \<and> n \<le> 13) \<or> n = 32 \<or> n = 133 \<or> n = 160)"

fun int_base16 :: "string \<Rightarrow> int option" where
  "int_base16 [a] = hex_val a"
| "int_base16 [a, b] =
     (case (hex_val a, hex_val b) of
        (Some x, Some y) \<Rightarrow> Some (16 * x + y)
      | (Some x, None) \<Rightarrow> (if is_space b then Some x else None)
      | (None, Some y) \<Rightarrow>
          (if is_space a \<or> a = CHR ''+'' then Some y
           else if a = CHR ''-'' then Some (- y) else None)
      | (None, None) \<Rightarrow> None)"
| "int_base16 _ = None"

text \<open>
  The format specification \<^verbatim>\<open>{n:02d}\<close>: the decimal digits of \<open>n\<close>, with a minus
  sign when negative, padded with zeros on the left to a width of two. Nothing is cut
  off when the number is wider.
\<close>

definition digit_char :: "nat \<Rightarrow> char" where
  "digit_char d = char_of (48 + d)"

fun dec_str :: "nat \<Rightarrow> string" where
  "dec_str n = (if n < 10 then [digit_char n] else dec_str (n div 10) @ [digit_char (n mod 10)])"

declare dec_str.simps [simp del]

definition fmt_02d :: "int \<Rightarrow> string" where
  "fmt_02d n =
     (if n < 0 then CHR ''-'' # dec_str (nat (- n))
      else if n < 10 then CHR ''0'' # dec_str (nat n)
      else dec_str (nat n))"

text \<open>
  The number a string of decimal digits denotes, to state that a formatted number is
  neither cut short nor altered.
\<close>

definition decimal_value :: "string \<Rightarrow> nat" where
  "decimal_value s = foldl (\<lambda>acc c. 10 * acc + (of_char c - 48)) 0 s"

text \<open>The plain replacement field \<^verbatim>\<open>{n}\<close> of an f-string.\<close>

definition fmt_d :: "int \<Rightarrow> string" where
  "fmt_d n = (if n < 0 then CHR ''-'' # dec_str (nat (- n)) else dec_str (nat n))"

text \<open>\<^verbatim>\<open>s.lower()\<close> on code points below 256.\<close>

definition lower_char :: "char \<Rightarrow> char" where
  "lower_char c =
     (let n = (of_char c :: nat) in
      if (65 \<le> n \<and> n \<le> 90) \<or> (192 \<le> n \<and> n \<le> 222 \<and> n \<noteq> 215) then char_of (n + 32) else c)"

definition lower :: "string \<Rightarrow> string" where
  "lower s = map lower_char s"


section \<open>Protocol constants\<close>

definition CMD_STOP :: string where "CMD_STOP = ''10''"
definition CMD_PLAY :: string where "CMD_PLAY = ''12''"
definition CMD_READY :: string where "CMD_READY = ''14''"
definition CMD_SEARCH :: string where "CMD_SEARCH = ''16''"
definition CMD_EJECT :: string where "CMD_EJECT = ''18''"
definition CMD_TRACK_SKIP :: string where "CMD_TRACK_SKIP = ''1A''"
definition CMD_DIRECT_TRACK_SEARCH :: string where "CMD_DIRECT_TRACK_SEARCH = ''23''"
definition CMD_RESUME_PLAY_SELECT :: string where "CMD_RESUME_PLAY_SELECT = ''34''"
definition CMD_RESUME_PLAY_SENSE :: string where "CMD_RESUME_PLAY_SENSE = ''35''"
definition CMD_REPEAT_SELECT :: string where "CMD_REPEAT_SELECT = ''37''"
definition CMD_REPEAT_SENSE :: string where "CMD_REPEAT_SENSE = ''38''"
definition CMD_INCR_PLAY_SELECT :: string where "CMD_INCR_PLAY_SELECT = ''3A''"
definition CMD_INCR_PLAY_SENSE :: string where "CMD_INCR_PLAY_SENSE = ''3B''"
definition CMD_CLEAR :: string where "CMD_CLEAR = ''4A''"
definition CMD_REMOTE_LOCAL_SELECT :: string where "CMD_REMOTE_LOCAL_SELECT = ''4C''"
definition CMD_REMOTE_LOCAL_SENSE :: string where "CMD_REMOTE_LOCAL_SENSE = ''4D''"
definition CMD_PLAY_MODE_SELECT :: string where "CMD_PLAY_MODE_SELECT = ''4E''"
definition CMD_PLAY_MODE_SENSE :: string where "CMD_PLAY_MODE_SENSE = ''4F''"
definition CMD_MECHA_STATUS_SENSE :: string where "CMD_MECHA_STATUS_SENSE = ''50''"
definition CMD_TRACK_NO_SENSE :: string where "CMD_TRACK_NO_SENSE = ''55''"
definition CMD_MEDIA_STATUS_SENSE :: string where "CMD_MEDIA_STATUS_SENSE = ''56''"
definition CMD_CURRENT_TRACK_INFO_SENSE :: string where "CMD_CURRENT_TRACK_INFO_SENSE = ''57''"
definition CMD_CURRENT_TRACK_TIME_SENSE :: string where "CMD_CURRENT_TRACK_TIME_SENSE = ''58''"
definition CMD_TOTAL_TRACK_TIME_SENSE :: string where "CMD_TOTAL_TRACK_TIME_SENSE = ''5D''"
definition CMD_ERROR_SENSE :: string where "CMD_ERROR_SENSE = ''78''"
definition CMD_CAUTION_SENSE :: string where "CMD_CAUTION_SENSE = ''79''"
definition CMD_DEVICE_SELECT :: string where "CMD_DEVICE_SELECT = ''7F01''"
definition CMD_ENTER :: string where "CMD_ENTER = ''7F7049''"
definition CMD_BACK :: string where "CMD_BACK = ''7F704A''"

definition RET_RESUME_PLAY :: string where "RET_RESUME_PLAY = ''B5''"
definition RET_REPEAT :: string where "RET_REPEAT = ''B8''"
definition RET_INCR_PLAY :: string where "RET_INCR_PLAY = ''BB''"
definition RET_REMOTE_LOCAL :: string where "RET_REMOTE_LOCAL = ''CD''"
definition RET_PLAY_MODE :: string where "RET_PLAY_MODE = ''CF''"
definition RET_MECHA_STATUS :: string where "RET_MECHA_STATUS = ''D0''"
definition RET_TRACK_NO :: string where "RET_TRACK_NO = ''D5''"
definition RET_MEDIA_STATUS :: string where "RET_MEDIA_STATUS = ''D6''"
definition RET_CURRENT_TRACK_INFO :: string where "RET_CURRENT_TRACK_INFO = ''D7''"
definition RET_CURRENT_TRACK_TIME :: string where "RET_CURRENT_TRACK_TIME = ''D8''"
definition RET_TOTAL_TRACK_TIME :: string where "RET_TOTAL_TRACK_TIME = ''DD''"
definition RET_ERROR_SENSE_REQUEST :: string where "RET_ERROR_SENSE_REQUEST = ''F0''"
definition RET_CAUTION_SENSE_REQUEST :: string where "RET_CAUTION_SENSE_REQUEST = ''F1''"
definition RET_ILLEGAL_STATUS :: string where "RET_ILLEGAL_STATUS = ''F2''"
definition RET_CHANGE_STATUS :: string where "RET_CHANGE_STATUS = ''F6''"
definition RET_ERROR_SENSE :: string where "RET_ERROR_SENSE = ''F8''"
definition RET_CAUTION_SENSE :: string where "RET_CAUTION_SENSE = ''F9''"
definition RET_VENDOR :: string where "RET_VENDOR = ''FF''"

definition MACHINE_ID :: string where "MACHINE_ID = ''0''"

definition VALID_BAUDRATES :: "int list" where
  "VALID_BAUDRATES = [4800, 9600, 19200, 38400, 57600]"

definition max_failures_before_disconnect :: int where
  "max_failures_before_disconnect = 10"

definition reconnect_interval :: int where
  "reconnect_interval = 5000"


section \<open>The controller's state\<close>

record error_info =
  raw :: int
  errors :: "string list"
  has_error :: bool

record caution_info =
  caution_raw :: int
  cautions :: "string list"
  has_caution :: bool

text \<open>The dictionary \<^verbatim>\<open>current_status\<close>, one field for each of its keys.\<close>

record device_status =
  mecha_status :: string
  track_number :: int
  current_track :: int
  total_tracks :: int
  time_elapsed :: string
  time_remaining :: string
  total_time :: string
  media_present :: bool
  media_type :: string
  play_mode :: string
  repeat_mode :: bool
  resume_mode :: bool
  incremental_play :: bool
  remote_local_mode :: string
  device :: string
  device_name :: string
  is_tuner :: bool
  error_status :: "error_info option"
  caution_status :: "caution_info option"

text \<open>
  The serial port object: whether it is open, and the frames written to it so far.
  The bytes the device sends are an input of the read operation.
\<close>

record serial_port =
  is_open :: bool
  written :: "bytes list"

text \<open>
  Threads are told apart by identity only: the thread of the caller, and the threads
  that \<^verbatim>\<open>connect\<close> starts, numbered in the order of their creation.
\<close>

datatype thread = MainThread | Spawned nat

text \<open>
  The attributes of a \<^verbatim>\<open>TascamController\<close>. The registered callbacks are
  represented by their effect: \<open>notified\<close> lists the snapshots that
  \<^verbatim>\<open>_notify_callbacks\<close> has broadcast, oldest first. Two fields record effects on the
  outside world: \<open>open_attempts\<close> counts the calls of \<^verbatim>\<open>serial.Serial(...)\<close>, and
  \<open>threads_started\<close> counts the threads created.
\<close>

record controller =
  port :: string
  baudrate :: int
  serial :: "serial_port option"
  connected :: bool
  cmd_queue :: "(string \<times> string) list"
  consecutive_failures :: int
  last_reconnect_attempt :: int
  current_status :: device_status
  notified :: "device_status list"
  cmd_thread :: "thread option"
  poll_thread :: "thread option"
  running :: bool
  response_buffer :: bytes
  open_attempts :: nat
  threads_started :: nat

definition default_status :: device_status where
  "default_status =
     \<lparr> mecha_status = ''unknown'', track_number = 0, current_track = 0, total_tracks = 0,
       time_elapsed = ''00:00'', time_remaining = ''00:00'', total_time = ''00:00'',
       media_present = False, media_type = ''unknown'', play_mode = ''continuous'',
       repeat_mode = False, resume_mode = False, incremental_play = False,
       remote_local_mode = ''unknown'', device = ''CD'', device_name = ''CD'',
       is_tuner = False, error_status = None, caution_status = None \<rparr>"

text \<open>\<^verbatim>\<open>__init__\<close>: the speed is checked first; nothing else happens when it is refused.\<close>

definition initial_state :: "string \<Rightarrow> int \<Rightarrow> controller" where
  "initial_state port_arg baudrate_arg =
     \<lparr> port = port_arg, baudrate = baudrate_arg, serial = None, connected = False,
       cmd_queue = [], consecutive_failures = 0, last_reconnect_attempt = 0,
       current_status = default_status, notified = [],
       cmd_thread = None, poll_thread = None, running = False,
       response_buffer = [], open_attempts = 0, threads_started = 0 \<rparr>"

definition init :: "string \<Rightarrow> int \<Rightarrow> py_error + controller" where
  "init port_arg baudrate_arg =
     (if baudrate_arg \<notin> set VALID_BAUDRATES then Inl ValueError
      else Inr (initial_state port_arg baudrate_arg))"


section \<open>Frame codec\<close>

text \<open>\<^verbatim>\<open>_build_command\<close>: both branches of the vendor test keep the command as it is.\<close>

definition build_command :: "string \<Rightarrow> string \<Rightarrow> py_error + bytes" where
  "build_command command data =
     (let cmd_bytes = (if take 2 command = ''7F'' \<or> take 2 command = ''FF''
                       then command else command);
          cmd_str = [LF] @ MACHINE_ID @ cmd_bytes @ data @ [CR]
      in encode_ascii cmd_str)"

definition transport_open :: "controller \<Rightarrow> bool" where
  "transport_open self = (case serial self of None \<Rightarrow> False | Some s \<Rightarrow> is_open s)"

text \<open>
  \<^verbatim>\<open>_read_response\<close>. \<open>incoming\<close> is what \<^verbatim>\<open>serial.read(serial.in_waiting)\<close>
  delivers (empty when nothing waits). \<open>cr_idx\<close> is \<^verbatim>\<open>response_buffer.index(b'\r')\<close>.
\<close>

definition read_response :: "bytes \<Rightarrow> controller \<Rightarrow> (string \<times> string) option \<times> controller" where
  "read_response incoming self =
     (if \<not> transport_open self then (None, self)
      else
        let buf = response_buffer self @ incoming in
        if CR \<in> set buf then
          let cr_idx = length (takeWhile (\<lambda>c. c \<noteq> CR) buf);
              message = take cr_idx buf;
              self' = self\<lparr>response_buffer := drop (cr_idx + 1) buf\<rparr>
          in
            if length message \<ge> 3 \<and> message ! 0 = LF then
              let msg_str = decode_ascii_ignore (drop 1 message) in
              if length msg_str \<ge> 3 then
                (Some (take 2 (drop 1 msg_str), (if length msg_str > 3 then drop 3 msg_str else [])),
                 self')
              else (None, self')
            else (None, self')
        else (None, self\<lparr>response_buffer := buf\<rparr>))"


section \<open>Notification and the dispatch queue\<close>

text \<open>\<^verbatim>\<open>_notify_callbacks\<close>: every listener receives a copy of the current status.\<close>

definition notify_callbacks :: "controller \<Rightarrow> controller" where
  "notify_callbacks self = self\<lparr>notified := notified self @ [current_status self]\<rparr>"

text \<open>\<^verbatim>\<open>_reset_status\<close>\<close>

definition reset_status :: "controller \<Rightarrow> controller" where
  "reset_status self = notify_callbacks (self\<lparr>current_status := default_status\<rparr>)"

text \<open>\<^verbatim>\<open>send_command\<close>: \<^verbatim>\<open>cmd_queue.put((command, data))\<close>\<close>

definition send_command :: "string \<Rightarrow> string \<Rightarrow> controller \<Rightarrow> controller" where
  "send_command command data self = self\<lparr>cmd_queue := cmd_queue self @ [(command, data)]\<rparr>"


section \<open>Response decoder\<close>

definition status_map :: "(string \<times> string) list" where
  "status_map =
     [(''00'', ''no_media''), (''01'', ''ejecting''), (''10'', ''stop''), (''11'', ''play''),
      (''12'', ''ready''), (''28'', ''search_forward''), (''29'', ''search_backward''),
      (''FF'', ''other'')]"

definition media_type_map :: "(string \<times> string) list" where
  "media_type_map = [(''00'', ''CD-DA/Audio''), (''10'', ''CD-ROM/Data'')]"

definition mode_map :: "(string \<times> string) list" where
  "mode_map = [(''00'', ''continuous''), (''01'', ''single''), (''06'', ''random'')]"

definition device_map :: "(string \<times> string \<times> string) list" where
  "device_map =
     [(''00'', ''sd'', ''SD Card''), (''10'', ''usb'', ''USB''), (''11'', ''cd'', ''CD''),
      (''20'', ''bluetooth'', ''Bluetooth''), (''30'', ''fm'', ''FM Radio''),
      (''31'', ''am'', ''AM Radio''), (''40'', ''aux'', ''AUX Input'')]"

definition remote_local_map :: "(string \<times> string) list" where
  "remote_local_map = [(''00'', ''remote_only''), (''01'', ''remote_and_local'')]"

text \<open>
  The four \<^verbatim>\<open>int(data[i])\<close> calls and the sum that follows them, in the order of the
  source: tens, ones, thousands, hundreds. \<open>None\<close> is the \<^verbatim>\<open>ValueError\<close> of the
  first character that is no digit.
\<close>

definition digits4 :: "char \<Rightarrow> char \<Rightarrow> char \<Rightarrow> char \<Rightarrow> int option" where
  "digits4 a b c d =
     do { tens \<leftarrow> int_of_char a;
          ones \<leftarrow> int_of_char b;
          thousands \<leftarrow> int_of_char c;
          hundreds \<leftarrow> int_of_char d;
          Some (thousands * 1000 + hundreds * 100 + tens * 10 + ones) }"

definition digits2 :: "char \<Rightarrow> char \<Rightarrow> int option" where
  "digits2 a b =
     do { sec_tens \<leftarrow> int_of_char a;
          sec_ones \<leftarrow> int_of_char b;
          Some (sec_tens * 10 + sec_ones) }"

definition error_names :: "int \<Rightarrow> string list" where
  "error_names error_byte =
     (if error_byte AND 0x01 \<noteq> 0 then [''focus_error''] else []) @
     (if error_byte AND 0x02 \<noteq> 0 then [''tracking_error''] else []) @
     (if error_byte AND 0x04 \<noteq> 0 then [''spindle_error''] else []) @
     (if error_byte AND 0x08 \<noteq> 0 then [''sled_error''] else []) @
     (if error_byte AND 0x10 \<noteq> 0 then [''tray_error''] else []) @
     (if error_byte AND 0x20 \<noteq> 0 then [''no_disc''] else []) @
     (if error_byte AND 0x40 \<noteq> 0 then [''cannot_play''] else []) @
     (if error_byte AND 0x80 \<noteq> 0 then [''other_error''] else [])"

definition caution_names :: "int \<Rightarrow> string list" where
  "caution_names caution_byte =
     (if caution_byte AND 0x01 \<noteq> 0 then [''unsupported_disc''] else []) @
     (if caution_byte AND 0x02 \<noteq> 0 then [''dirty_disc''] else []) @
     (if caution_byte AND 0x04 \<noteq> 0 then [''no_audio''] else []) @
     (if caution_byte AND 0x08 \<noteq> 0 then [''temperature_high''] else []) @
     (if caution_byte AND 0x10 \<noteq> 0 then [''copyright_protected''] else [])"

text \<open>An assignment \<^verbatim>\<open>self.current_status[key] = value\<close>.\<close>

definition upd :: "(device_status \<Rightarrow> device_status) \<Rightarrow> controller \<Rightarrow> controller" where
  "upd f self = self\<lparr>current_status := f (current_status self)\<rparr>"

text \<open>
  The end of \<^verbatim>\<open>_handle_response\<close> (\<^verbatim>\<open>if updated: self._notify_callbacks()\<close>), and
  an exception leaving it with the state as it is at that point.
\<close>

definition finish :: "bool \<Rightarrow> controller \<Rightarrow> py_error option \<times> controller" where
  "finish updated self = (None, if updated then notify_callbacks self else self)"

definition raise :: "py_error \<Rightarrow> controller \<Rightarrow> py_error option \<times> controller" where
  "raise e self = (Some e, self)"

text \<open>
  \<^verbatim>\<open>_handle_response\<close>, branch by branch in the order of the source. The result is
  the exception that left the method, if any, and the controller afterwards.
\<close>

definition handle_response :: "string \<Rightarrow> string \<Rightarrow> controller \<Rightarrow> py_error option \<times> controller" where
  "handle_response command data self =
     (if command = RET_MECHA_STATUS then
        finish True (upd (\<lambda>s. s\<lparr>mecha_status := dict_get status_map (take 2 data) ''unknown''\<rparr>) self)
      else if command = RET_TRACK_NO then
        (if length data \<ge> 4 then
           (case digits4 (data ! 0) (data ! 1) (data ! 2) (data ! 3) of
              None \<Rightarrow> raise ValueError self
            | Some track_num \<Rightarrow> finish True (upd (\<lambda>s. s\<lparr>track_number := track_num\<rparr>) self))
         else finish False self)
      else if command = RET_CURRENT_TRACK_TIME then
        (if length data \<ge> 10 then
           (case digits4 (data ! 2) (data ! 3) (data ! 4) (data ! 5) of
              None \<Rightarrow> raise ValueError self
            | Some minutes \<Rightarrow>
               (case digits2 (data ! 6) (data ! 7) of
                  None \<Rightarrow> raise ValueError self
                | Some seconds \<Rightarrow>
                    finish True
                      (upd (\<lambda>s. s\<lparr>time_elapsed := fmt_02d minutes @ '':'' @ fmt_02d seconds\<rparr>) self)))
         else finish False self)
      else if command = RET_MEDIA_STATUS then
        (if length data \<ge> 4 then
           finish True
             (upd (\<lambda>s. s\<lparr>media_type := dict_get media_type_map (take 2 (drop 2 data)) ''Unknown''\<rparr>)
                (upd (\<lambda>s. s\<lparr>media_present := (take 2 data = ''01'')\<rparr>) self))
         else finish False self)
      else if command = RET_CURRENT_TRACK_INFO then
        (if length data \<ge> 4 then
           (case digits4 (data ! 0) (data ! 1) (data ! 2) (data ! 3) of
              None \<Rightarrow> raise ValueError self
            | Some n \<Rightarrow> finish True (upd (\<lambda>s. s\<lparr>current_track := n\<rparr>) self))
         else finish False self)
      else if command = RET_PLAY_MODE then
        (if length data \<ge> 2 then
           finish True (upd (\<lambda>s. s\<lparr>play_mode := dict_get mode_map (take 2 data) ''continuous''\<rparr>) self)
         else finish False self)
      else if command = RET_TOTAL_TRACK_TIME then
        (if length data \<ge> 12 then
           (case digits4 (data ! 0) (data ! 1) (data ! 2) (data ! 3) of
              None \<Rightarrow> raise ValueError self
            | Some n \<Rightarrow>
               (let self1 = upd (\<lambda>s. s\<lparr>total_tracks := n\<rparr>) self in
                if take 6 (drop 4 data) \<noteq> ''000000'' then
                  (case digits4 (data ! 4) (data ! 5) (data ! 6) (data ! 7) of
                     None \<Rightarrow> raise ValueError self1
                   | Some minutes \<Rightarrow>
                      (case digits2 (data ! 8) (data ! 9) of
                         None \<Rightarrow> raise ValueError self1
                       | Some seconds \<Rightarrow>
                           finish True
                             (upd (\<lambda>s. s\<lparr>total_time := fmt_02d minutes @ '':'' @ fmt_02d seconds\<rparr>)
                                self1)))
                else finish True self1))
         else finish False self)
      else if command = RET_VENDOR then
        (if length data \<ge> 2 then
           (let category = take 2 data in
            if category = ''01'' then
              (if length data \<ge> 8 then
                 (let device_kind = take 2 (drop 6 data) in
                  case map_of device_map device_kind of
                    Some (device_code, name) \<Rightarrow>
                      finish True
                        (upd (\<lambda>s. s\<lparr>is_tuner := (device_code \<in> set [''fm'', ''am''])\<rparr>)
                           (upd (\<lambda>s. s\<lparr>device_name := name\<rparr>)
                              (upd (\<lambda>s. s\<lparr>device := device_code\<rparr>) self)))
                  | None \<Rightarrow> finish False self)
               else finish False self)
            else finish False self)
         else finish False self)
      else if command = RET_RESUME_PLAY then
        (if length data \<ge> 2 then
           finish True (upd (\<lambda>s. s\<lparr>resume_mode := (take 2 data = ''01'')\<rparr>) self)
         else finish False self)
      else if command = RET_REPEAT then
        (if length data \<ge> 2 then
           finish True (upd (\<lambda>s. s\<lparr>repeat_mode := (take 2 data = ''01'')\<rparr>) self)
         else finish False self)
      else if command = RET_INCR_PLAY then
        (if length data \<ge> 2 then
           finish True (upd (\<lambda>s. s\<lparr>incremental_play := (take 2 data = ''01'')\<rparr>) self)
         else finish False self)
      else if command = RET_REMOTE_LOCAL then
        (if length data \<ge> 2 then
           finish True
             (upd (\<lambda>s. s\<lparr>remote_local_mode := dict_get remote_local_map (take 2 data) ''unknown''\<rparr>) self)
         else finish False self)
      else if command = RET_ERROR_SENSE then
        (if length data \<ge> 2 then
           (case int_base16 (take 2 data) of
              None \<Rightarrow> raise ValueError self
            | Some error_byte \<Rightarrow>
               (let errs = error_names error_byte in
                finish True
                  (upd (\<lambda>s. s\<lparr>error_status :=
                           Some \<lparr>raw = error_byte, errors = errs, has_error = (length errs > 0)\<rparr>\<rparr>)
                     self)))
         else finish False self)
      else if command = RET_CAUTION_SENSE then
        (if length data \<ge> 2 then
           (case int_base16 (take 2 data) of
              None \<Rightarrow> raise ValueError self
            | Some caution_byte \<Rightarrow>
               (let cs = caution_names caution_byte in
                finish True
                  (upd (\<lambda>s. s\<lparr>caution_status :=
                           Some \<lparr>caution_raw = caution_byte, cautions = cs,
                                 has_caution = (length cs > 0)\<rparr>\<rparr>)
                     self)))
         else finish False self)
      else if command = RET_CHANGE_STATUS then
        finish False (send_command CMD_DEVICE_SELECT ''FF'' self)
      else if command = RET_ERROR_SENSE_REQUEST then
        finish False (send_command CMD_ERROR_SENSE [] self)
      else if command = RET_CAUTION_SENSE_REQUEST then
        finish False (send_command CMD_CAUTION_SENSE [] self)
      else if command = RET_ILLEGAL_STATUS then
        finish False self
      else finish False self)"


section \<open>Command-issuing operations\<close>

definition play :: "controller \<Rightarrow> controller" where
  "play self = send_command CMD_PLAY [] self"

definition stop :: "controller \<Rightarrow> controller" where
  "stop self = send_command CMD_STOP [] self"

definition eject :: "controller \<Rightarrow> controller" where
  "eject self = send_command CMD_EJECT [] self"

definition next_track :: "controller \<Rightarrow> controller" where
  "next_track self = send_command CMD_TRACK_SKIP ''00'' self"

definition previous_track :: "controller \<Rightarrow> controller" where
  "previous_track self = send_command CMD_TRACK_SKIP ''01'' self"

definition search_forward :: "bool \<Rightarrow> controller \<Rightarrow> controller" where
  "search_forward high_speed self =
     send_command CMD_SEARCH (if high_speed then ''10'' else ''00'') self"

definition search_reverse :: "bool \<Rightarrow> controller \<Rightarrow> controller" where
  "search_reverse high_speed self =
     send_command CMD_SEARCH (if high_speed then ''11'' else ''01'') self"

text \<open>The payload \<^verbatim>\<open>f"{tens}{ones}{thousands}{hundreds}"\<close> of a number.\<close>

definition track_digits :: "int \<Rightarrow> string" where
  "track_digits n =
     (let thousands = (n div 1000) mod 10;
          hundreds = (n div 100) mod 10;
          tens = (n div 10) mod 10;
          ones = n mod 10
      in fmt_d tens @ fmt_d ones @ fmt_d thousands @ fmt_d hundreds)"

definition goto_track :: "int \<Rightarrow> controller \<Rightarrow> controller" where
  "goto_track track_no self =
     (if \<not> (1 \<le> track_no \<and> track_no \<le> 999) then self
      else send_command CMD_DIRECT_TRACK_SEARCH (track_digits track_no) self)"

definition play_mode_codes :: "(string \<times> string) list" where
  "play_mode_codes = [(''continuous'', ''00''), (''single'', ''01''), (''random'', ''06'')]"

definition set_play_mode :: "string \<Rightarrow> controller \<Rightarrow> controller" where
  "set_play_mode mode self =
     (case map_of play_mode_codes mode of
        Some code \<Rightarrow> upd (\<lambda>s. s\<lparr>play_mode := mode\<rparr>) (send_command CMD_PLAY_MODE_SELECT code self)
      | None \<Rightarrow> self)"

definition set_repeat :: "bool \<Rightarrow> controller \<Rightarrow> controller" where
  "set_repeat enabled self =
     upd (\<lambda>s. s\<lparr>repeat_mode := enabled\<rparr>)
       (send_command CMD_REPEAT_SELECT (if enabled then ''01'' else ''00'') self)"

definition pause :: "controller \<Rightarrow> controller" where
  "pause self = send_command CMD_READY ''01'' self"

definition resume :: "controller \<Rightarrow> controller" where
  "resume self = send_command CMD_PLAY [] self"

definition set_resume_mode :: "bool \<Rightarrow> controller \<Rightarrow> controller" where
  "set_resume_mode enabled self =
     upd (\<lambda>s. s\<lparr>resume_mode := enabled\<rparr>)
       (send_command CMD_RESUME_PLAY_SELECT (if enabled then ''01'' else ''00'') self)"

definition set_incremental_play :: "bool \<Rightarrow> controller \<Rightarrow> controller" where
  "set_incremental_play enabled self =
     send_command CMD_INCR_PLAY_SELECT (if enabled then ''01'' else ''00'') self"

definition search_start :: "bool \<Rightarrow> bool \<Rightarrow> controller \<Rightarrow> controller" where
  "search_start forward high_speed self =
     send_command CMD_SEARCH
       (if forward then (if high_speed then ''10'' else ''00'')
        else (if high_speed then ''11'' else ''01'')) self"

definition search_stop :: "controller \<Rightarrow> controller" where
  "search_stop self = send_command CMD_PLAY [] self"

definition device_codes :: "(string \<times> string) list" where
  "device_codes =
     [(''sd'', ''00''), (''usb'', ''10''), (''cd'', ''11''), (''bluetooth'', ''20''),
      (''fm'', ''30''), (''am'', ''31''), (''aux'', ''40'')]"

definition device_names :: "(string \<times> string) list" where
  "device_names =
     [(''sd'', ''SD Card''), (''usb'', ''USB''), (''cd'', ''CD''), (''bluetooth'', ''Bluetooth''),
      (''fm'', ''FM Radio''), (''am'', ''AM Radio''), (''aux'', ''AUX Input'')]"

text \<open>
  \<^verbatim>\<open>switch_device\<close>. The default \<^verbatim>\<open>device.upper()\<close> of the name lookup is never
  taken, the two dictionaries having the same keys; it is passed as a parameter.
\<close>

definition switch_device :: "string \<Rightarrow> controller \<Rightarrow> controller" where
  "switch_device dev self =
     (let device_lower = lower dev in
      case map_of device_codes device_lower of
        Some code \<Rightarrow>
          upd (\<lambda>s. s\<lparr>is_tuner := (device_lower \<in> set [''fm'', ''am''])\<rparr>)
            (upd (\<lambda>s. s\<lparr>device_name := dict_get device_names device_lower dev\<rparr>)
               (upd (\<lambda>s. s\<lparr>device := device_lower\<rparr>)
                  (send_command CMD_DEVICE_SELECT code self)))
      | None \<Rightarrow> self)"

definition tuner_frequency_up :: "controller \<Rightarrow> controller" where
  "tuner_frequency_up self = send_command CMD_TRACK_SKIP ''00'' self"

definition tuner_frequency_down :: "controller \<Rightarrow> controller" where
  "tuner_frequency_down self = send_command CMD_TRACK_SKIP ''01'' self"

definition tuner_seek_up :: "controller \<Rightarrow> controller" where
  "tuner_seek_up self = send_command CMD_SEARCH ''00'' self"

definition tuner_seek_down :: "controller \<Rightarrow> controller" where
  "tuner_seek_down self = send_command CMD_SEARCH ''01'' self"

definition tuner_preset :: "int \<Rightarrow> controller \<Rightarrow> controller" where
  "tuner_preset preset_number self =
     (if \<not> (1 \<le> preset_number \<and> preset_number \<le> 20) then self
      else send_command CMD_DIRECT_TRACK_SEARCH (track_digits preset_number) self)"

definition clear :: "controller \<Rightarrow> controller" where
  "clear self = send_command CMD_CLEAR [] self"

definition enter :: "controller \<Rightarrow> controller" where
  "enter self = send_command CMD_ENTER ''01'' self"

definition back_cmd :: "controller \<Rightarrow> controller" where
  "back_cmd self = send_command CMD_BACK ''01'' self"

definition get_total_info :: "controller \<Rightarrow> controller" where
  "get_total_info self = send_command CMD_TOTAL_TRACK_TIME_SENSE [] self"

text \<open>
  The command-issuing part of the public surface as one type, so that a statement can
  range over all of it.
\<close>

datatype command_op =
    Play | Stop | Eject | NextTrack | PreviousTrack
  | SearchForward bool | SearchReverse bool | GotoTrack int
  | SetPlayMode string | SetRepeat bool | Pause | Resume
  | SetResumeMode bool | SetIncrementalPlay bool
  | SearchStart bool bool | SearchStop | SwitchDevice string
  | TunerFrequencyUp | TunerFrequencyDown | TunerSeekUp | TunerSeekDown
  | TunerPreset int | Clear | Enter | Back | GetTotalInfo

fun issue :: "command_op \<Rightarrow> controller \<Rightarrow> controller" where
  "issue Play = play"
| "issue Stop = stop"
| "issue Eject = eject"
| "issue NextTrack = next_track"
| "issue PreviousTrack = previous_track"
| "issue (SearchForward h) = search_forward h"
| "issue (SearchReverse h) = search_reverse h"
| "issue (GotoTrack n) = goto_track n"
| "issue (SetPlayMode m) = set_play_mode m"
| "issue (SetRepeat e) = set_repeat e"
| "issue Pause = pause"
| "issue Resume = resume"
| "issue (SetResumeMode e) = set_resume_mode e"
| "issue (SetIncrementalPlay e) = set_incremental_play e"
| "issue (SearchStart f h) = search_start f h"
| "issue SearchStop = search_stop"
| "issue (SwitchDevice d) = switch_device d"
| "issue TunerFrequencyUp = tuner_frequency_up"
| "issue TunerFrequencyDown = tuner_frequency_down"
| "issue TunerSeekUp = tuner_seek_up"
| "issue TunerSeekDown = tuner_seek_down"
| "issue (TunerPreset n) = tuner_preset n"
| "issue Clear = clear"
| "issue Enter = enter"
| "issue Back = back_cmd"
| "issue GetTotalInfo = get_total_info"

fun optimistic :: "command_op \<Rightarrow> bool" where
  "optimistic (SetPlayMode m) = True"
| "optimistic (SetRepeat e) = True"
| "optimistic (SetResumeMode e) = True"
| "optimistic (SwitchDevice d) = True"
| "optimistic _ = False"


section \<open>Connection lifecycle\<close>

text \<open>
  \<^verbatim>\<open>_send_command_now\<close>: every exception of the body (an unencodable command, a
  write on a closed port) is caught there and turns into the result \<open>False\<close>. The pacing
  sleep changes nothing but the time of the write.
\<close>

definition send_command_now :: "string \<Rightarrow> string \<Rightarrow> controller \<Rightarrow> bool \<times> controller" where
  "send_command_now command data self =
     (case serial self of
        None \<Rightarrow> (False, self)
      | Some s \<Rightarrow>
          if \<not> connected self then (False, self)
          else
            (case build_command command data of
               Inl e \<Rightarrow> (False, self)
             | Inr cmd_bytes \<Rightarrow>
                 if is_open s
                 then (True, self\<lparr>serial := Some (s\<lparr>written := written s @ [cmd_bytes]\<rparr>)\<rparr>)
                 else (False, self)))"

text \<open>
  \<^verbatim>\<open>connect\<close>. Whether \<^verbatim>\<open>serial.Serial(...)\<close> opens the port is decided by the
  environment (\<open>open_ok\<close>); its exception is caught in the method. The two threads
  started are fresh ones.
\<close>

definition connect :: "bool \<Rightarrow> controller \<Rightarrow> bool \<times> controller" where
  "connect open_ok self =
     (let self0 = self\<lparr>open_attempts := Suc (open_attempts self)\<rparr> in
      if open_ok then
        (let n = threads_started self0;
             self1 = self0\<lparr>serial := Some \<lparr>is_open = True, written = []\<rparr>,
                           connected := True, running := True,
                           cmd_thread := Some (Spawned n),
                           poll_thread := Some (Spawned (Suc n)),
                           threads_started := n + 2\<rparr>
         in (True, snd (send_command_now CMD_REMOTE_LOCAL_SELECT ''01'' self1)))
      else (False, self0\<lparr>connected := False\<rparr>))"

text \<open>
  \<^verbatim>\<open>disconnect\<close>, called by the thread \<open>me\<close>. \<^verbatim>\<open>Thread.join\<close> raises
  \<^verbatim>\<open>RuntimeError\<close> ("cannot join current thread") when the thread to join is the
  calling one; the statements after the join are then not reached.
\<close>

definition disconnect :: "thread \<Rightarrow> controller \<Rightarrow> py_error option \<times> controller" where
  "disconnect me self =
     (let self1 = self\<lparr>running := False\<rparr> in
      if cmd_thread self1 = Some me then (Some RuntimeError, self1)
      else if poll_thread self1 = Some me then (Some RuntimeError, self1)
      else
        (let self2 = (case serial self1 of
                        None \<Rightarrow> self1
                      | Some s \<Rightarrow> if is_open s then self1\<lparr>serial := Some (s\<lparr>is_open := False\<rparr>)\<rparr>
                                  else self1);
             self3 = self2\<lparr>connected := False, consecutive_failures := 0\<rparr>
         in (None, reset_status self3)))"


section \<open>Poll and health supervisor\<close>

text \<open>
  What the environment contributes to one pass of the loop of \<^verbatim>\<open>_poll_status\<close>:
  the clock, the bytes waiting on the port, and whether the port would open.
\<close>

record cycle_input =
  now :: int
  incoming :: bytes
  open_ok :: bool

text \<open>The status queries of one cycle.\<close>

definition poll_queries :: "nat \<Rightarrow> controller \<Rightarrow> controller" where
  "poll_queries poll_count self =
     (let s1 = send_command CMD_MECHA_STATUS_SENSE [] self;
          s2 = send_command CMD_TRACK_NO_SENSE [] s1;
          s3 = send_command CMD_CURRENT_TRACK_TIME_SENSE ''00'' s2;
          s4 = (if poll_count mod 10 = 0 then
                  send_command CMD_DEVICE_SELECT ''FF''
                    (send_command CMD_PLAY_MODE_SENSE []
                      (send_command CMD_TOTAL_TRACK_TIME_SENSE []
                        (send_command CMD_CURRENT_TRACK_INFO_SENSE []
                          (send_command CMD_MEDIA_STATUS_SENSE [] s3))))
                else s3)
      in if poll_count mod 30 = 0 then
           send_command CMD_REMOTE_LOCAL_SENSE []
             (send_command CMD_INCR_PLAY_SENSE []
               (send_command CMD_REPEAT_SENSE []
                 (send_command CMD_RESUME_PLAY_SENSE [] s4)))
         else s4)"

text \<open>
  The handler \<^verbatim>\<open>except Exception\<close> of the loop body. An exception raised inside the
  handler leaves \<^verbatim>\<open>_poll_status\<close>: the thread ends.
\<close>

definition poll_except :: "thread \<Rightarrow> controller \<Rightarrow> py_error option \<times> controller" where
  "poll_except me self =
     (let self1 = self\<lparr>consecutive_failures := consecutive_failures self + 1\<rparr> in
      if consecutive_failures self1 \<ge> max_failures_before_disconnect
      then disconnect me self1
      else (None, self1))"

text \<open>
  One pass of the body of \<^verbatim>\<open>while self.running\<close>, run by the thread \<open>me\<close>. The
  result is the exception that escaped the pass (if any), the new \<^verbatim>\<open>poll_count\<close>
  and the controller.
\<close>

definition poll_iteration ::
    "thread \<Rightarrow> cycle_input \<Rightarrow> nat \<Rightarrow> controller \<Rightarrow> py_error option \<times> nat \<times> controller" where
  "poll_iteration me inp poll_count self =
     (if \<not> connected self then
        (if now inp - last_reconnect_attempt self \<ge> reconnect_interval then
           (let self1 = self\<lparr>last_reconnect_attempt := now inp\<rparr>;
                (ok, self2) = connect (open_ok inp) self1
            in (None, poll_count, if ok then self2\<lparr>consecutive_failures := 0\<rparr> else self2))
         else (None, poll_count, self))
      else
        (let (response, self1) = read_response (incoming inp) self in
         case (case response of
                 Some (command, data) \<Rightarrow> handle_response command data self1
               | None \<Rightarrow> (None, self1)) of
           (Some e, self2) \<Rightarrow>
             (let (r, self3) = poll_except me self2 in (r, poll_count, self3))
         | (None, self2) \<Rightarrow>
             (let got_response = (response \<noteq> None);
                  self3 = (if got_response then self2\<lparr>consecutive_failures := 0\<rparr> else self2);
                  self4 = poll_queries poll_count self3
              in
                if \<not> got_response then
                  (let self5 = self4\<lparr>consecutive_failures := consecutive_failures self4 + 1\<rparr> in
                   if consecutive_failures self5 \<ge> max_failures_before_disconnect then
                     (case disconnect me self5 of
                        (Some e, self6) \<Rightarrow>
                          (let (r, self7) = poll_except me self6 in (r, poll_count, self7))
                      | (None, self6) \<Rightarrow> (None, poll_count, self6))
                   else (None, poll_count + 1, self5))
                else (None, poll_count + 1, self4))))"

text \<open>
  The loop of \<^verbatim>\<open>_poll_status\<close> over the observations of the environment, one per
  pass. It ends when \<^verbatim>\<open>self.running\<close> is false (\<open>Exited\<close>) or when an exception
  escapes (\<open>Crashed\<close>); \<open>Pending\<close> says that the loop was still running when the
  observations were used up.
\<close>

datatype loop_end = Exited | Crashed py_error | Pending

fun poll_loop :: "thread \<Rightarrow> cycle_input list \<Rightarrow> nat \<Rightarrow> controller \<Rightarrow> loop_end \<times> controller" where
  "poll_loop me [] poll_count self = (if running self then Pending else Exited, self)"
| "poll_loop me (inp # rest) poll_count self =
     (if \<not> running self then (Exited, self)
      else
        (case poll_iteration me inp poll_count self of
           (Some e, pc, self') \<Rightarrow> (Crashed e, self')
         | (None, pc, self') \<Rightarrow> poll_loop me rest pc self'))"

definition poll_status :: "thread \<Rightarrow> cycle_input list \<Rightarrow> controller \<Rightarrow> loop_end \<times> controller" where
  "poll_status me inputs self = poll_loop me inputs 0 self"


section \<open>A concrete controller\<close>

text \<open>
  \<^verbatim>\<open>TascamController()\<close> with its default arguments after a successful
  \<^verbatim>\<open>connect()\<close>; the polling thread it started is \<open>Spawned 1\<close>.
\<close>

definition connected_controller :: controller where
  "connected_controller = snd (connect True (initial_state ''/dev/ttyUSB0'' 9600))"


text \<open>
  The controller above once the device has reported that it plays (\<^verbatim>\<open>D0\<close> with
  payload \<^verbatim>\<open>11\<close>).
\<close>

definition playing_controller :: controller where
  "playing_controller = snd (handle_response RET_MECHA_STATUS ''11'' connected_controller)"

text \<open>A pass of the poll loop at time \<open>t\<close> in which the device sends nothing.\<close>

definition silent :: "int \<Rightarrow> cycle_input" where
  "silent t = \<lparr>now = t, incoming = [], open_ok = True\<rparr>"

text \<open>
  Ten passes of 300 ms without a byte from the device, and two later moments, each more
  than the reconnect interval after the one before, at which the port would open.
\<close>

definition ten_silent_cycles :: "cycle_input list" where
  "ten_silent_cycles = map silent [300, 600, 900, 1200, 1500, 1800, 2100, 2400, 2700, 3000]"

definition later_cycles :: "cycle_input list" where
  "later_cycles = map silent [10000, 20000]"

text \<open>
  The payload length that the branch of \<^verbatim>\<open>_handle_response\<close> for a response code
  tests before it decodes anything (for the vendor code, the length that the
  device-select category needs); 0 for the codes whose branch has no such test.
\<close>

definition guard_length :: "string \<Rightarrow> nat" where
  "guard_length command =
     (if command = RET_TRACK_NO then 4
      else if command = RET_CURRENT_TRACK_TIME then 10
      else if command = RET_MEDIA_STATUS then 4
      else if command = RET_CURRENT_TRACK_INFO then 4
      else if command = RET_PLAY_MODE then 2
      else if command = RET_TOTAL_TRACK_TIME then 12
      else if command = RET_VENDOR then 8
      else if command = RET_RESUME_PLAY then 2
      else if command = RET_REPEAT then 2
      else if command = RET_INCR_PLAY then 2
      else if command = RET_REMOTE_LOCAL then 2
      else if command = RET_ERROR_SENSE then 2
      else if command = RET_CAUTION_SENSE then 2
      else 0)"


section \<open>Auxiliary facts\<close>

lemmas cmd_defs =
  CMD_STOP_def CMD_PLAY_def CMD_READY_def CMD_SEARCH_def CMD_EJECT_def CMD_TRACK_SKIP_def
  CMD_DIRECT_TRACK_SEARCH_def CMD_RESUME_PLAY_SELECT_def CMD_RESUME_PLAY_SENSE_def
  CMD_REPEAT_SELECT_def CMD_REPEAT_SENSE_def CMD_INCR_PLAY_SELECT_def CMD_INCR_PLAY_SENSE_def
  CMD_CLEAR_def CMD_REMOTE_LOCAL_SELECT_def CMD_REMOTE_LOCAL_SENSE_def CMD_PLAY_MODE_SELECT_def
  CMD_PLAY_MODE_SENSE_def CMD_MECHA_STATUS_SENSE_def CMD_TRACK_NO_SENSE_def
  CMD_MEDIA_STATUS_SENSE_def CMD_CURRENT_TRACK_INFO_SENSE_def CMD_CURRENT_TRACK_TIME_SENSE_def
  CMD_TOTAL_TRACK_TIME_SENSE_def CMD_ERROR_SENSE_def CMD_CAUTION_SENSE_def CMD_DEVICE_SELECT_def
  CMD_ENTER_def CMD_BACK_def

lemmas ret_defs =
  RET_RESUME_PLAY_def RET_REPEAT_def RET_INCR_PLAY_def RET_REMOTE_LOCAL_def RET_PLAY_MODE_def
  RET_MECHA_STATUS_def RET_TRACK_NO_def RET_MEDIA_STATUS_def RET_CURRENT_TRACK_INFO_def
  RET_CURRENT_TRACK_TIME_def RET_TOTAL_TRACK_TIME_def RET_ERROR_SENSE_REQUEST_def
  RET_CAUTION_SENSE_REQUEST_def RET_ILLEGAL_STATUS_def RET_CHANGE_STATUS_def RET_ERROR_SENSE_def
  RET_CAUTION_SENSE_def RET_VENDOR_def

lemma LF_neq_CR: "LF \<noteq> CR"
  by (simp add: LF_def CR_def)

lemma transport_open_buffer [simp]:
  "transport_open (self\<lparr>response_buffer := b\<rparr>) = transport_open self"
  by (simp add: transport_open_def)

lemma takeWhile_frame:
  assumes "CR \<notin> set m"
  shows "takeWhile (\<lambda>c. c \<noteq> CR) (m @ CR # rest) = m"
  using assms by (induction m) auto

lemma decode_ascii_id: "list_all is_ascii b \<Longrightarrow> decode_ascii_ignore b = b"
  by (simp add: decode_ascii_ignore_def list_all_iff)

lemma read_response_complete_frame:
  assumes op: "transport_open self"
    and nocr: "CR \<notin> set body"
    and len: "3 \<le> length (decode_ascii_ignore body)"
  shows "read_response [] (self\<lparr>response_buffer := LF # body @ CR # rest\<rparr>) =
           (Some (take 2 (drop 1 (decode_ascii_ignore body)), drop 3 (decode_ascii_ignore body)),
            self\<lparr>response_buffer := rest\<rparr>)"
proof -
  define buf where "buf = LF # body @ CR # rest"
  have nocr': "CR \<notin> set (LF # body)"
    using nocr LF_neq_CR by auto
  have "takeWhile (\<lambda>c. c \<noteq> CR) ((LF # body) @ CR # rest) = LF # body"
    by (rule takeWhile_frame [OF nocr'])
  then have tw: "length (takeWhile (\<lambda>c. c \<noteq> CR) buf) = Suc (length body)"
    by (simp add: buf_def)
  have mem: "CR \<in> set buf"
    by (simp add: buf_def)
  have tk: "take (Suc (length body)) buf = LF # body"
    by (simp add: buf_def)
  have dr: "drop (Suc (Suc (length body))) buf = rest"
    by (simp add: buf_def)
  have lb: "3 \<le> length body"
    using len length_filter_le [of is_ascii body] unfolding decode_ascii_ignore_def by linarith
  have lbuf: "3 \<le> length buf"
    using lb by (simp add: buf_def)
  have "read_response [] (self\<lparr>response_buffer := buf\<rparr>) =
           (Some (take 2 (drop 1 (decode_ascii_ignore body)), drop 3 (decode_ascii_ignore body)),
            self\<lparr>response_buffer := rest\<rparr>)"
    unfolding read_response_def
    using op lb len lbuf by (simp add: mem tw tk dr Let_def)
  then show ?thesis by (simp only: buf_def)
qed

lemma build_command_ascii:
  assumes "list_all is_ascii (command @ data)"
  shows "build_command command data = Inr (LF # (MACHINE_ID @ command @ data) @ [CR])"
  using assms
  by (simp add: build_command_def encode_ascii_def MACHINE_ID_def LF_def CR_def is_ascii_def)


lemma build_then_read:
  assumes "transport_open self"
    and "2 \<le> length command"
    and "list_all is_ascii (command @ data)"
    and "CR \<notin> set (command @ data)"
  shows "build_command command data = Inr (LF # MACHINE_ID @ command @ data @ [CR])"
    and "read_response [] (self\<lparr>response_buffer := LF # MACHINE_ID @ command @ data @ [CR]\<rparr>) =
           (Some (take 2 command, drop 2 command @ data), self\<lparr>response_buffer := []\<rparr>)"
proof -
  let ?body = "MACHINE_ID @ command @ data"
  have asc: "list_all is_ascii ?body"
    using assms(3) by (simp add: MACHINE_ID_def is_ascii_def)
  have nocr: "CR \<notin> set ?body"
    using assms(4) by (auto simp: MACHINE_ID_def CR_def)
  have len: "3 \<le> length (decode_ascii_ignore ?body)"
    using assms(2) unfolding decode_ascii_id [OF asc] by (simp add: MACHINE_ID_def)
  have "read_response [] (self\<lparr>response_buffer := LF # ?body @ CR # []\<rparr>) =
          (Some (take 2 (drop 1 ?body), drop 3 ?body), self\<lparr>response_buffer := []\<rparr>)"
    using read_response_complete_frame [OF assms(1) nocr len, of "[]"]
    by (simp only: decode_ascii_id [OF asc])
  moreover have "take 2 (drop 1 ?body) = take 2 command"
    using assms(2) by (simp add: MACHINE_ID_def)
  moreover have "drop 3 ?body = drop 2 command @ data"
    using assms(2) by (simp add: MACHINE_ID_def)
  ultimately show "read_response [] (self\<lparr>response_buffer := LF # MACHINE_ID @ command @ data @ [CR]\<rparr>) =
           (Some (take 2 command, drop 2 command @ data), self\<lparr>response_buffer := []\<rparr>)"
    by simp
  show "build_command command data = Inr (LF # MACHINE_ID @ command @ data @ [CR])"
    using build_command_ascii [OF assms(3)] by simp
qed

lemma connected_controller_eq:
  "connected_controller =
     (initial_state ''/dev/ttyUSB0'' 9600)
       \<lparr>serial := Some \<lparr>is_open = True, written = [LF # ''04C01'' @ [CR]]\<rparr>,
        connected := True, cmd_thread := Some (Spawned 0), poll_thread := Some (Spawned 1),
        running := True, open_attempts := 1, threads_started := 2\<rparr>"
  by (simp add: connected_controller_def connect_def initial_state_def send_command_now_def
      build_command_def encode_ascii_def is_ascii_def MACHINE_ID_def CMD_REMOTE_LOCAL_SELECT_def
      LF_def CR_def Let_def)

lemma connected_controller_open: "transport_open connected_controller"
  by (simp add: connected_controller_eq transport_open_def)


section \<open>Frame codec: round trip, one frame per call, device id\<close>

text \<open>
  C4 (as amended). For a command code of at least two characters and a payload, both
  ASCII and free of carriage return, \<^verbatim>\<open>_build_command\<close> yields the frame
  LF, device id, code, payload, CR, and \<^verbatim>\<open>_read_response\<close> on exactly these
  bytes returns the first two characters of the code as the code and the remainder of the
  code followed by the payload as the data, leaving the buffer empty. For a code of
  exactly two characters this is the original pair.
\<close>

theorem build_then_read_roundtrip:
  assumes "transport_open self"
    and "2 \<le> length command"
    and "list_all is_ascii (command @ data)"
    and "CR \<notin> set (command @ data)"
  shows "build_command command data = Inr (LF # MACHINE_ID @ command @ data @ [CR]) \<and>
         read_response [] (self\<lparr>response_buffer := LF # MACHINE_ID @ command @ data @ [CR]\<rparr>) =
           (Some (take 2 command, drop 2 command @ data), self\<lparr>response_buffer := []\<rparr>) \<and>
         (length command = 2 \<longrightarrow> (take 2 command, drop 2 command @ data) = (command, data))"
  using build_then_read [OF assms] by simp

theorem build_then_read_roundtrip_witness:
  "transport_open connected_controller \<and> length CMD_PLAY = 2 \<and>
   build_command CMD_PLAY ''01'' = Inr (LF # MACHINE_ID @ CMD_PLAY @ ''01'' @ [CR]) \<and>
   read_response [] (connected_controller\<lparr>response_buffer := LF # MACHINE_ID @ CMD_PLAY @ ''01'' @ [CR]\<rparr>) =
     (Some (CMD_PLAY, ''01''), connected_controller\<lparr>response_buffer := []\<rparr>)"
  using build_then_read_roundtrip [OF connected_controller_open, of CMD_PLAY "''01''"]
    connected_controller_open
  by (simp add: is_ascii_def CR_def CMD_PLAY_def)

text \<open>
  C4 as stated fails. The device-select command \<^verbatim>\<open>7F01\<close> with payload \<^verbatim>\<open>11\<close>
  comes back as code \<^verbatim>\<open>7F\<close> with payload \<^verbatim>\<open>0111\<close>; a payload holding a carriage
  return is cut at it; a payload outside ASCII is refused by the encoder.
\<close>

theorem build_then_read_roundtrip_counterexample:
  "build_command CMD_DEVICE_SELECT ''11'' = Inr (LF # ''07F0111'' @ [CR]) \<and>
   fst (read_response [] (connected_controller\<lparr>response_buffer := LF # ''07F0111'' @ [CR]\<rparr>))
     = Some (''7F'', ''0111'') \<and>
   fst (read_response [] (connected_controller\<lparr>response_buffer := LF # ''07F0111'' @ [CR]\<rparr>))
     \<noteq> Some (CMD_DEVICE_SELECT, ''11'') \<and>
   build_command CMD_TRACK_SKIP [CHR ''0'', CR] = Inr (LF # ''01A0'' @ [CR, CR]) \<and>
   fst (read_response [] (connected_controller\<lparr>response_buffer := LF # ''01A0'' @ [CR, CR]\<rparr>))
     \<noteq> Some (CMD_TRACK_SKIP, [CHR ''0'', CR]) \<and>
   build_command CMD_TRACK_SKIP [CHR 0xE9] = Inl UnicodeEncodeError"
proof -
  have a: "list_all is_ascii (CMD_DEVICE_SELECT @ ''11'')"
    by (simp add: is_ascii_def CMD_DEVICE_SELECT_def)
  have b: "CR \<notin> set (CMD_DEVICE_SELECT @ ''11'')"
    by (simp add: CR_def CMD_DEVICE_SELECT_def)
  have c: "2 \<le> length CMD_DEVICE_SELECT"
    by (simp add: CMD_DEVICE_SELECT_def)
  have vendor: "build_command CMD_DEVICE_SELECT ''11'' = Inr (LF # ''07F0111'' @ [CR])"
    "fst (read_response [] (connected_controller\<lparr>response_buffer := LF # ''07F0111'' @ [CR]\<rparr>))
       = Some (''7F'', ''0111'')"
    using build_then_read [OF connected_controller_open c a b]
    by (simp_all add: CMD_DEVICE_SELECT_def MACHINE_ID_def)
  have d: "CR \<notin> set ''01A0''"
    by (simp add: CR_def)
  have e: "3 \<le> length (decode_ascii_ignore ''01A0'')"
    by (simp add: decode_ascii_ignore_def is_ascii_def)
  have cr1: "build_command CMD_TRACK_SKIP [CHR ''0'', CR] = Inr (LF # ''01A0'' @ [CR, CR])"
    by (simp add: build_command_def encode_ascii_def is_ascii_def MACHINE_ID_def
        CMD_TRACK_SKIP_def CR_def LF_def)
  have cr2: "fst (read_response [] (connected_controller\<lparr>response_buffer := LF # ''01A0'' @ [CR, CR]\<rparr>))
       = Some (''1A'', ''0'')"
    using read_response_complete_frame [OF connected_controller_open d e, of "[CR]"]
    by (simp add: decode_ascii_ignore_def is_ascii_def)
  have na: "build_command CMD_TRACK_SKIP [CHR 0xE9] = Inl UnicodeEncodeError"
    by (simp add: build_command_def encode_ascii_def is_ascii_def MACHINE_ID_def
        CMD_TRACK_SKIP_def CR_def LF_def)
  show ?thesis
    using vendor cr1 cr2 na by (simp add: CMD_DEVICE_SELECT_def CMD_TRACK_SKIP_def)
qed

text \<open>
  C7. When the buffer holds two complete frames one after the other, the first call of
  \<^verbatim>\<open>_read_response\<close> returns the first frame and leaves exactly the second frame in
  the buffer; the second call returns the second frame and leaves the buffer empty.
  A call returns at most one frame by the type of its result.
\<close>

theorem two_frames_one_at_a_time:
  assumes "transport_open self"
    and "CR \<notin> set b1" and "CR \<notin> set b2"
    and "list_all is_ascii b1" and "list_all is_ascii b2"
    and "3 \<le> length b1" and "3 \<le> length b2"
  shows "read_response [] (self\<lparr>response_buffer := (LF # b1 @ [CR]) @ (LF # b2 @ [CR])\<rparr>) =
           (Some (take 2 (drop 1 b1), drop 3 b1), self\<lparr>response_buffer := LF # b2 @ [CR]\<rparr>) \<and>
         read_response [] (self\<lparr>response_buffer := LF # b2 @ [CR]\<rparr>) =
           (Some (take 2 (drop 1 b2), drop 3 b2), self\<lparr>response_buffer := []\<rparr>)"
proof -
  have l1: "3 \<le> length (decode_ascii_ignore b1)" and l2: "3 \<le> length (decode_ascii_ignore b2)"
    using assms by (simp_all add: decode_ascii_id)
  show ?thesis
    using read_response_complete_frame [OF assms(1) assms(2) l1, of "LF # b2 @ [CR]"]
      read_response_complete_frame [OF assms(1) assms(3) l2, of "[]"] assms(4,5)
    by (simp add: decode_ascii_id)
qed

theorem two_frames_one_at_a_time_witness:
  "read_response [] (connected_controller\<lparr>response_buffer := (LF # ''0D011'' @ [CR]) @ (LF # ''0D50100'' @ [CR])\<rparr>) =
           (Some (''D0'', ''11''), connected_controller\<lparr>response_buffer := LF # ''0D50100'' @ [CR]\<rparr>) \<and>
         read_response [] (connected_controller\<lparr>response_buffer := LF # ''0D50100'' @ [CR]\<rparr>) =
           (Some (''D5'', ''0100''), connected_controller\<lparr>response_buffer := []\<rparr>)"
  using two_frames_one_at_a_time [OF connected_controller_open, of "''0D011''" "''0D50100''"]
  by (simp add: is_ascii_def CR_def)

text \<open>
  C10. A frame LF, one ASCII character in the device-id position, a two-character code,
  a payload, CR is accepted whatever that character is: the result is the code and the
  payload, and the character takes no part in it. (A byte outside ASCII in that position
  is removed by the decoding step before the positions are counted.)
\<close>

theorem device_id_not_validated:
  assumes "transport_open self"
    and "is_ascii ident" and "ident \<noteq> CR"
    and "length code = 2"
    and "list_all is_ascii (code @ data)"
    and "CR \<notin> set (code @ data)"
  shows "read_response [] (self\<lparr>response_buffer := LF # ident # code @ data @ [CR]\<rparr>) =
           (Some (code, data), self\<lparr>response_buffer := []\<rparr>)"
proof -
  let ?body = "ident # code @ data"
  have asc: "list_all is_ascii ?body" using assms by simp
  have nocr: "CR \<notin> set ?body" using assms by auto
  have len: "3 \<le> length (decode_ascii_ignore ?body)"
    using assms(4) unfolding decode_ascii_id [OF asc] by simp
  show ?thesis
    using read_response_complete_frame [OF assms(1) nocr len, of "[]"] assms(4)
    unfolding decode_ascii_id [OF asc] by simp
qed

theorem device_id_not_validated_witness:
  "read_response [] (connected_controller\<lparr>response_buffer := LF # CHR ''7'' # ''D0'' @ ''11'' @ [CR]\<rparr>) =
           (Some (''D0'', ''11''), connected_controller\<lparr>response_buffer := []\<rparr>) \<and> [CHR ''7''] \<noteq> MACHINE_ID"
  using device_id_not_validated [OF connected_controller_open, of "CHR ''7''" "''D0''" "''11''"]
  by (simp add: is_ascii_def CR_def MACHINE_ID_def)


section \<open>Decoding numbers and times\<close>

lemma int_of_char_digit: "a < 10 \<Longrightarrow> int_of_char (digit_char a) = Some (int a)"
  by (simp add: int_of_char_def is_digit_def digit_char_def)

lemma digits4_digit_chars:
  assumes "a < 10" "b < 10" "c < 10" "d < 10"
  shows "digits4 (digit_char a) (digit_char b) (digit_char c) (digit_char d) =
           Some (int c * 1000 + int d * 100 + int a * 10 + int b)"
  using assms by (simp add: digits4_def int_of_char_digit)

lemma digits2_digit_chars:
  assumes "a < 10" "b < 10"
  shows "digits2 (digit_char a) (digit_char b) = Some (int a * 10 + int b)"
  using assms by (simp add: digits2_def int_of_char_digit)

lemma digit_chars: "digit_char 0 = CHR ''0''" "digit_char 1 = CHR ''1''" "digit_char 2 = CHR ''2''"
  "digit_char 3 = CHR ''3''" "digit_char 4 = CHR ''4''" "digit_char 5 = CHR ''5''"
  "digit_char 6 = CHR ''6''" "digit_char 7 = CHR ''7''" "digit_char 8 = CHR ''8''"
  "digit_char 9 = CHR ''9''" "digit_char (Suc 0) = CHR ''1''"
  by (simp_all add: digit_char_def char_of_def bit_0)


lemma handle_track_time:
  "handle_response RET_CURRENT_TRACK_TIME data self =
        (if length data \<ge> 10 then
           (case digits4 (data ! 2) (data ! 3) (data ! 4) (data ! 5) of
              None \<Rightarrow> raise ValueError self
            | Some minutes \<Rightarrow>
               (case digits2 (data ! 6) (data ! 7) of
                  None \<Rightarrow> raise ValueError self
                | Some seconds \<Rightarrow>
                    finish True
                      (upd (\<lambda>s. s\<lparr>time_elapsed := fmt_02d minutes @ '':'' @ fmt_02d seconds\<rparr>) self)))
         else finish False self)"
  by (simp add: handle_response_def ret_defs)


lemma track_number_upd [simp]:
  "track_number (current_status (notify_callbacks (upd (\<lambda>s. s\<lparr>track_number := n\<rparr>) self))) = n"
  by (simp add: notify_callbacks_def upd_def)

lemma is_digit_digit_char: "d < 10 \<Longrightarrow> is_digit (digit_char d)"
  by (simp add: is_digit_def digit_char_def)

lemma digit_char_value: "d < 10 \<Longrightarrow> of_char (digit_char d) - 48 = d"
  by (simp add: digit_char_def)

lemma decimal_value_snoc:
  "decimal_value (s @ [c]) = 10 * decimal_value s + (of_char c - 48)"
  by (simp add: decimal_value_def)

lemma decimal_value_dec_str: "decimal_value (dec_str n) = n"
proof (induction n rule: dec_str.induct)
  case (1 n)
  show ?case
  proof (cases "n < 10")
    case True
    then show ?thesis
      by (subst dec_str.simps) (simp add: decimal_value_def digit_char_value)
  next
    case False
    then have "decimal_value (dec_str (n div 10)) = n div 10"
      using "1.IH" by simp
    then show ?thesis
      using False
      by (subst dec_str.simps) (simp add: decimal_value_snoc digit_char_value)
  qed
qed

lemma digits_dec_str: "list_all is_digit (dec_str n)"
proof (induction n rule: dec_str.induct)
  case (1 n)
  show ?case
  proof (cases "n < 10")
    case True
    then show ?thesis
      by (subst dec_str.simps) (simp add: is_digit_digit_char)
  next
    case False
    then show ?thesis
      using "1.IH"
      by (subst dec_str.simps) (simp add: is_digit_digit_char)
  qed
qed

lemma dec_str_small: "m < 10 \<Longrightarrow> dec_str m = [digit_char m]"
  by (subst dec_str.simps) simp

lemma length_dec_str: "10 \<le> n \<Longrightarrow> 2 \<le> length (dec_str n)"
  by (subst dec_str.simps, simp, subst dec_str.simps, simp)

lemma decimal_value_zero_cons: "decimal_value (CHR ''0'' # s) = decimal_value s"
  by (simp add: decimal_value_def)

lemma fmt_02d_full:
  assumes "0 \<le> n"
  shows "2 \<le> length (fmt_02d n)" and "list_all is_digit (fmt_02d n)"
    and "decimal_value (fmt_02d n) = nat n"
proof -
  show "2 \<le> length (fmt_02d n)"
  proof (cases "n < 10")
    case True
    then have "dec_str (nat n) = [digit_char (nat n)]"
      using assms by (intro dec_str_small) linarith
    then show ?thesis using assms True by (simp add: fmt_02d_def)
  next
    case False
    then show ?thesis using length_dec_str [of "nat n"] by (simp add: fmt_02d_def)
  qed
  show "list_all is_digit (fmt_02d n)"
    using assms digits_dec_str [of "nat n"] by (simp add: fmt_02d_def is_digit_def)
  show "decimal_value (fmt_02d n) = nat n"
    using assms by (simp add: fmt_02d_def decimal_value_zero_cons decimal_value_dec_str)
qed

lemma fmt_02d_small: "0 \<le> n \<Longrightarrow> n < 10 \<Longrightarrow> fmt_02d n = [CHR ''0'', digit_char (nat n)]"
  using dec_str_small [of "nat n"] by (simp add: fmt_02d_def)

lemma fmt_105_30: "fmt_02d 105 @ '':'' @ fmt_02d 30 = ''105:30''"
  by (simp add: fmt_02d_def dec_str.simps digit_chars)

lemma time_decode_digits:
  assumes "a < 10" "b < 10" "c < 10" "d < 10" "e < 10" "f < 10" "2 \<le> length rest"
  shows "handle_response RET_CURRENT_TRACK_TIME
           (t0 # t1 # digit_char a # digit_char b # digit_char c # digit_char d #
            digit_char e # digit_char f # rest) self =
         (None, notify_callbacks
            (upd (\<lambda>s. s\<lparr>time_elapsed :=
                     fmt_02d (int c * 1000 + int d * 100 + int a * 10 + int b) @ '':'' @
                     fmt_02d (int e * 10 + int f)\<rparr>) self))"
  using digits4_digit_chars [OF assms(1-4)] digits2_digit_chars [OF assms(5,6)] assms(7)
  by (simp add: handle_track_time finish_def)




text \<open>
  C8. A current-track-time payload of at least ten characters whose characters 2 to 7
  are decimal digits sets the elapsed time to the minutes, read from characters 2 to 5 in
  the order tens, ones, thousands, hundreds, a colon, and the seconds, read from
  characters 6 and 7; the listeners are notified. Each number is written with
  \<^verbatim>\<open>02d\<close>: at least two decimal digits that denote the number itself, a single digit
  preceded by a zero, so that 105 minutes and 30 seconds read \<^verbatim>\<open>105:30\<close>.
\<close>

theorem track_time_decode:
  "(a < 10 \<and> b < 10 \<and> c < 10 \<and> d < 10 \<and> e < 10 \<and> f < 10 \<and> 2 \<le> length rest \<longrightarrow>
      fst (handle_response RET_CURRENT_TRACK_TIME
             (t0 # t1 # digit_char a # digit_char b # digit_char c # digit_char d #
              digit_char e # digit_char f # rest) self) = None \<and>
      time_elapsed (current_status (snd (handle_response RET_CURRENT_TRACK_TIME
             (t0 # t1 # digit_char a # digit_char b # digit_char c # digit_char d #
              digit_char e # digit_char f # rest) self))) =
        fmt_02d (int c * 1000 + int d * 100 + int a * 10 + int b) @ '':'' @
        fmt_02d (int e * 10 + int f) \<and>
      current_status (snd (handle_response RET_CURRENT_TRACK_TIME
             (t0 # t1 # digit_char a # digit_char b # digit_char c # digit_char d #
              digit_char e # digit_char f # rest) self)) =
        (current_status self)
          \<lparr>time_elapsed :=
             fmt_02d (int c * 1000 + int d * 100 + int a * 10 + int b) @ '':'' @
             fmt_02d (int e * 10 + int f)\<rparr> \<and>
      notified (snd (handle_response RET_CURRENT_TRACK_TIME
             (t0 # t1 # digit_char a # digit_char b # digit_char c # digit_char d #
              digit_char e # digit_char f # rest) self)) =
        notified self @
          [(current_status self)
             \<lparr>time_elapsed :=
                fmt_02d (int c * 1000 + int d * 100 + int a * 10 + int b) @ '':'' @
                fmt_02d (int e * 10 + int f)\<rparr>] \<and>
      handle_response RET_CURRENT_TRACK_TIME
           (t0 # t1 # digit_char a # digit_char b # digit_char c # digit_char d #
            digit_char e # digit_char f # rest) self =
         (None, notify_callbacks
            (upd (\<lambda>s. s\<lparr>time_elapsed :=
                     fmt_02d (int c * 1000 + int d * 100 + int a * 10 + int b) @ '':'' @
                     fmt_02d (int e * 10 + int f)\<rparr>) self))) \<and>
   (0 \<le> n \<longrightarrow> 2 \<le> length (fmt_02d n) \<and> list_all is_digit (fmt_02d n) \<and>
      decimal_value (fmt_02d n) = nat n) \<and>
   (0 \<le> n \<and> n < 10 \<longrightarrow> fmt_02d n = [CHR ''0'', digit_char (nat n)]) \<and>
   fmt_02d 105 @ '':'' @ fmt_02d 30 = ''105:30''"
proof -
  let ?v = "fmt_02d (int c * 1000 + int d * 100 + int a * 10 + int b) @ '':'' @
            fmt_02d (int e * 10 + int f)"
  let ?r = "handle_response RET_CURRENT_TRACK_TIME
             (t0 # t1 # digit_char a # digit_char b # digit_char c # digit_char d #
              digit_char e # digit_char f # rest) self"
  have dec: "fst ?r = None \<and> time_elapsed (current_status (snd ?r)) = ?v \<and>
             current_status (snd ?r) = (current_status self)\<lparr>time_elapsed := ?v\<rparr> \<and>
             notified (snd ?r) = notified self @ [(current_status self)\<lparr>time_elapsed := ?v\<rparr>] \<and>
             ?r = (None, notify_callbacks (upd (\<lambda>s. s\<lparr>time_elapsed := ?v\<rparr>) self))"
    if dg: "a < 10" "b < 10" "c < 10" "d < 10" "e < 10" "f < 10" "2 \<le> length rest"
  proof -
    have r: "?r = (None, notify_callbacks (upd (\<lambda>s. s\<lparr>time_elapsed := ?v\<rparr>) self))"
      by (rule time_decode_digits [OF dg])
    show ?thesis
      unfolding r by (simp add: notify_callbacks_def upd_def)
  qed
  show ?thesis
    using dec fmt_02d_full [of n] fmt_02d_small [of n] fmt_105_30
    by blast
qed

theorem track_time_decode_witness:
  "fst (handle_response RET_CURRENT_TRACK_TIME ''0005013000'' connected_controller) = None \<and>
   time_elapsed (current_status
     (snd (handle_response RET_CURRENT_TRACK_TIME ''0005013000'' connected_controller))) = ''105:30'' \<and>
   notified (snd (handle_response RET_CURRENT_TRACK_TIME ''0005013000'' connected_controller)) =
     [default_status\<lparr>time_elapsed := ''105:30''\<rparr>] \<and>
   time_elapsed (current_status connected_controller) = ''00:00'' \<and>
   fmt_02d 7 = ''07'' \<and> decimal_value (fmt_02d 105) = 105"
proof -
  have st: "current_status connected_controller = default_status"
    "notified connected_controller = []"
    by (simp_all add: connected_controller_eq initial_state_def)
  have z: "time_elapsed default_status = ''00:00''"
    by (simp add: default_status_def)
  show ?thesis
    using track_time_decode [of 0 5 0 1 3 0 "''00''" "CHR ''0''" "CHR ''0''" connected_controller 7]
      track_time_decode [of 0 5 0 1 3 0 "''00''" "CHR ''0''" "CHR ''0''" connected_controller 105]
    by (simp add: digit_chars st z)
qed


section \<open>Construction\<close>

text \<open>
  C9. \<^verbatim>\<open>__init__\<close> with a speed outside 4800, 9600, 19200, 38400, 57600 raises
  \<^verbatim>\<open>ValueError\<close> and yields no controller, hence neither a port nor a queue; with a
  speed of the set it returns the initial controller, whose port is absent, whose queue is
  empty and which has not tried to open the transport.
\<close>

theorem init_speed_check:
  "(baud \<notin> set VALID_BAUDRATES \<longrightarrow> init p baud = Inl ValueError) \<and>
   (baud \<in> set VALID_BAUDRATES \<longrightarrow>
      init p baud = Inr (initial_state p baud) \<and>
      serial (initial_state p baud) = None \<and>
      open_attempts (initial_state p baud) = 0 \<and>
      cmd_queue (initial_state p baud) = []) \<and>
   set VALID_BAUDRATES = {4800, 9600, 19200, 38400, 57600}"
  by (simp add: init_def initial_state_def VALID_BAUDRATES_def)

theorem init_speed_check_witness:
  "(1200::int) \<notin> set VALID_BAUDRATES \<and> init ''/dev/ttyUSB0'' 1200 = Inl ValueError \<and>
   (9600::int) \<in> set VALID_BAUDRATES \<and>
   init ''/dev/ttyUSB0'' 9600 = Inr (initial_state ''/dev/ttyUSB0'' 9600)"
  using init_speed_check [of 1200 "''/dev/ttyUSB0''"] init_speed_check [of 9600 "''/dev/ttyUSB0''"]
  by (simp add: VALID_BAUDRATES_def)


section \<open>Short payloads\<close>

text \<open>
  Every branch of the decoder that tests the length of the payload ignores a payload
  below that length: nothing is raised, no field changes, no listener is called.
\<close>

lemma short_track_no: "length data < 4 \<Longrightarrow> handle_response RET_TRACK_NO data self = (None, self)"
  by (simp add: handle_response_def ret_defs finish_def)

lemma short_track_time:
  "length data < 10 \<Longrightarrow> handle_response RET_CURRENT_TRACK_TIME data self = (None, self)"
  by (simp add: handle_response_def ret_defs finish_def)

lemma short_media_status:
  "length data < 4 \<Longrightarrow> handle_response RET_MEDIA_STATUS data self = (None, self)"
  by (simp add: handle_response_def ret_defs finish_def)

lemma short_track_info:
  "length data < 4 \<Longrightarrow> handle_response RET_CURRENT_TRACK_INFO data self = (None, self)"
  by (simp add: handle_response_def ret_defs finish_def)

lemma short_play_mode:
  "length data < 2 \<Longrightarrow> handle_response RET_PLAY_MODE data self = (None, self)"
  by (simp add: handle_response_def ret_defs finish_def)

lemma short_total_track_time:
  "length data < 12 \<Longrightarrow> handle_response RET_TOTAL_TRACK_TIME data self = (None, self)"
  by (simp add: handle_response_def ret_defs finish_def)

lemma short_vendor:
  "length data < 8 \<Longrightarrow> handle_response RET_VENDOR data self = (None, self)"
  by (simp add: handle_response_def ret_defs finish_def Let_def)

lemma short_resume_play:
  "length data < 2 \<Longrightarrow> handle_response RET_RESUME_PLAY data self = (None, self)"
  by (simp add: handle_response_def ret_defs finish_def)

lemma short_repeat:
  "length data < 2 \<Longrightarrow> handle_response RET_REPEAT data self = (None, self)"
  by (simp add: handle_response_def ret_defs finish_def)

lemma short_incr_play:
  "length data < 2 \<Longrightarrow> handle_response RET_INCR_PLAY data self = (None, self)"
  by (simp add: handle_response_def ret_defs finish_def)

lemma short_remote_local:
  "length data < 2 \<Longrightarrow> handle_response RET_REMOTE_LOCAL data self = (None, self)"
  by (simp add: handle_response_def ret_defs finish_def)

lemma short_error_sense:
  "length data < 2 \<Longrightarrow> handle_response RET_ERROR_SENSE data self = (None, self)"
  by (simp add: handle_response_def ret_defs finish_def)

lemma short_caution_sense:
  "length data < 2 \<Longrightarrow> handle_response RET_CAUTION_SENSE data self = (None, self)"
  by (simp add: handle_response_def ret_defs finish_def)

lemma guard_lengths:
  "guard_length RET_TRACK_NO = 4" "guard_length RET_CURRENT_TRACK_TIME = 10"
  "guard_length RET_MEDIA_STATUS = 4" "guard_length RET_CURRENT_TRACK_INFO = 4"
  "guard_length RET_PLAY_MODE = 2" "guard_length RET_TOTAL_TRACK_TIME = 12"
  "guard_length RET_VENDOR = 8" "guard_length RET_RESUME_PLAY = 2"
  "guard_length RET_REPEAT = 2" "guard_length RET_INCR_PLAY = 2"
  "guard_length RET_REMOTE_LOCAL = 2" "guard_length RET_ERROR_SENSE = 2"
  "guard_length RET_CAUTION_SENSE = 2" "guard_length RET_MECHA_STATUS = 0"
  by (simp_all add: guard_length_def ret_defs)

lemma short_payload_guarded:
  assumes "length data < guard_length command"
  shows "handle_response command data self = (None, self)"
proof -
  have "command \<in> {RET_TRACK_NO, RET_CURRENT_TRACK_TIME, RET_MEDIA_STATUS,
      RET_CURRENT_TRACK_INFO, RET_PLAY_MODE, RET_TOTAL_TRACK_TIME, RET_VENDOR, RET_RESUME_PLAY,
      RET_REPEAT, RET_INCR_PLAY, RET_REMOTE_LOCAL, RET_ERROR_SENSE, RET_CAUTION_SENSE}"
    using assms by (simp add: guard_length_def split: if_splits)
  then consider "command = RET_TRACK_NO" | "command = RET_CURRENT_TRACK_TIME"
    | "command = RET_MEDIA_STATUS" | "command = RET_CURRENT_TRACK_INFO"
    | "command = RET_PLAY_MODE" | "command = RET_TOTAL_TRACK_TIME" | "command = RET_VENDOR"
    | "command = RET_RESUME_PLAY" | "command = RET_REPEAT" | "command = RET_INCR_PLAY"
    | "command = RET_REMOTE_LOCAL" | "command = RET_ERROR_SENSE" | "command = RET_CAUTION_SENSE"
    by blast
  then show ?thesis
  proof cases
    case 1 with assms show ?thesis by (simp add: guard_lengths short_track_no)
  next
    case 2 with assms show ?thesis by (simp add: guard_lengths short_track_time)
  next
    case 3 with assms show ?thesis by (simp add: guard_lengths short_media_status)
  next
    case 4 with assms show ?thesis by (simp add: guard_lengths short_track_info)
  next
    case 5 with assms show ?thesis by (simp add: guard_lengths short_play_mode)
  next
    case 6 with assms show ?thesis by (simp add: guard_lengths short_total_track_time)
  next
    case 7 with assms show ?thesis by (simp add: guard_lengths short_vendor)
  next
    case 8 with assms show ?thesis by (simp add: guard_lengths short_resume_play)
  next
    case 9 with assms show ?thesis by (simp add: guard_lengths short_repeat)
  next
    case 10 with assms show ?thesis by (simp add: guard_lengths short_incr_play)
  next
    case 11 with assms show ?thesis by (simp add: guard_lengths short_remote_local)
  next
    case 12 with assms show ?thesis by (simp add: guard_lengths short_error_sense)
  next
    case 13 with assms show ?thesis by (simp add: guard_lengths short_caution_sense)
  qed
qed

lemma mecha_status_any_payload:
  "handle_response RET_MECHA_STATUS data self =
     (None, notify_callbacks
        (upd (\<lambda>s. s\<lparr>mecha_status := dict_get status_map (take 2 data) ''unknown''\<rparr>) self))"
  by (simp add: handle_response_def finish_def)

lemma playing_controller_status:
  "mecha_status (current_status playing_controller) = ''play''"
  by (simp add: playing_controller_def mecha_status_any_payload notify_callbacks_def upd_def
      dict_get_def status_map_def)

text \<open>
  C1. The branch for the mechanism status is the one decoding branch without a length
  test. On a controller whose mechanism state is \<^verbatim>\<open>play\<close>, the response \<^verbatim>\<open>D0\<close>
  with an empty payload raises nothing, but sets the mechanism state to \<^verbatim>\<open>unknown\<close>
  and broadcasts the changed status to the listeners.
\<close>

theorem mecha_status_short_payload:
  "mecha_status (current_status playing_controller) = ''play'' \<and>
   fst (handle_response RET_MECHA_STATUS [] playing_controller) = None \<and>
   mecha_status (current_status (snd (handle_response RET_MECHA_STATUS [] playing_controller)))
     = ''unknown'' \<and>
   notified (snd (handle_response RET_MECHA_STATUS [] playing_controller)) =
     notified playing_controller @
       [(current_status playing_controller)\<lparr>mecha_status := ''unknown''\<rparr>] \<and>
   handle_response RET_MECHA_STATUS [] playing_controller \<noteq> (None, playing_controller)"
proof -
  let ?r = "handle_response RET_MECHA_STATUS [] playing_controller"
  have r: "?r = (None, notify_callbacks
        (upd (\<lambda>s. s\<lparr>mecha_status := ''unknown''\<rparr>) playing_controller))"
    by (simp add: mecha_status_any_payload dict_get_def status_map_def)
  have m: "mecha_status (current_status (snd ?r)) = ''unknown''"
    by (simp add: r notify_callbacks_def upd_def)
  have n: "notified (snd ?r) = notified playing_controller @
       [(current_status playing_controller)\<lparr>mecha_status := ''unknown''\<rparr>]"
    by (simp add: r notify_callbacks_def upd_def)
  have ne: "?r \<noteq> (None, playing_controller)"
  proof
    assume "?r = (None, playing_controller)"
    then have "mecha_status (current_status (snd ?r)) = mecha_status (current_status playing_controller)"
      by simp
    then show False
      using m playing_controller_status by simp
  qed
  show ?thesis
    using playing_controller_status m n ne by (simp add: r)
qed


section \<open>Who writes the device status\<close>

lemma send_command_status [simp]:
  "current_status (send_command c d self) = current_status self"
  "notified (send_command c d self) = notified self"
  by (simp_all add: send_command_def)

lemma upd_status [simp]:
  "current_status (upd f self) = f (current_status self)"
  "notified (upd f self) = notified self"
  by (simp_all add: upd_def)

lemma set_play_mode_status:
  "current_status (set_play_mode m self) =
     (if m \<in> set [''continuous'', ''single'', ''random'']
      then (current_status self)\<lparr>play_mode := m\<rparr> else current_status self)"
proof (cases "map_of play_mode_codes m")
  case None
  then have "m \<notin> set [''continuous'', ''single'', ''random'']"
    by (auto simp: play_mode_codes_def split: if_splits)
  with None show ?thesis by (simp add: set_play_mode_def)
next
  case (Some code)
  then have "m \<in> fst ` set play_mode_codes"
    by (metis map_of_eq_None_iff option.distinct(1))
  then have "m \<in> set [''continuous'', ''single'', ''random'']"
    unfolding play_mode_codes_def by simp
  with Some show ?thesis by (simp add: set_play_mode_def)
qed

lemma set_play_mode_notified: "notified (set_play_mode m self) = notified self"
  by (cases "map_of play_mode_codes m") (simp_all add: set_play_mode_def)

lemma switch_device_status:
  "current_status (switch_device d self) =
     (if lower d \<in> set [''sd'', ''usb'', ''cd'', ''bluetooth'', ''fm'', ''am'', ''aux'']
      then (current_status self)
             \<lparr>device := lower d, device_name := dict_get device_names (lower d) d,
              is_tuner := (lower d \<in> set [''fm'', ''am''])\<rparr>
      else current_status self)"
proof (cases "map_of device_codes (lower d)")
  case None
  then have "lower d \<notin> fst ` set device_codes"
    by (simp add: map_of_eq_None_iff)
  then have "lower d \<notin> set [''sd'', ''usb'', ''cd'', ''bluetooth'', ''fm'', ''am'', ''aux'']"
    unfolding device_codes_def by simp
  with None show ?thesis by (simp add: switch_device_def Let_def)
next
  case (Some code)
  then have "lower d \<in> fst ` set device_codes"
    by (metis map_of_eq_None_iff option.distinct(1))
  then have "lower d \<in> set [''sd'', ''usb'', ''cd'', ''bluetooth'', ''fm'', ''am'', ''aux'']"
    unfolding device_codes_def by simp
  with Some show ?thesis by (simp add: switch_device_def Let_def del: set_simps)
qed

lemma switch_device_notified: "notified (switch_device d self) = notified self"
  by (cases "map_of device_codes (lower d)") (simp_all add: switch_device_def Let_def)


lemmas plain_op_defs =
  play_def stop_def eject_def next_track_def previous_track_def
  search_forward_def search_reverse_def goto_track_def pause_def resume_def
  set_incremental_play_def search_start_def search_stop_def tuner_frequency_up_def
  tuner_frequency_down_def tuner_seek_up_def tuner_seek_down_def tuner_preset_def
  clear_def enter_def back_cmd_def get_total_info_def

lemma plain_ops_keep_status:
  assumes "\<not> optimistic op"
  shows "current_status (issue op self) = current_status self"
  using assms by (cases op) (simp_all add: plain_op_defs)

lemma ops_never_notify: "notified (issue op self) = notified self"
  by (cases op)
    (simp_all add: plain_op_defs set_play_mode_notified switch_device_notified
      set_repeat_def set_resume_mode_def)

lemma set_repeat_status:
  "current_status (set_repeat e self) = (current_status self)\<lparr>repeat_mode := e\<rparr>"
  by (simp add: set_repeat_def)

lemma set_resume_mode_status:
  "current_status (set_resume_mode e self) = (current_status self)\<lparr>resume_mode := e\<rparr>"
  by (simp add: set_resume_mode_def)

lemma read_response_shape:
  "\<exists>b. snd (read_response inc self) = self\<lparr>response_buffer := b\<rparr>"
proof (cases "transport_open self")
  case False
  then have "snd (read_response inc self) = self\<lparr>response_buffer := response_buffer self\<rparr>"
    by (simp add: read_response_def)
  then show ?thesis by blast
next
  case True
  show ?thesis
  proof (cases "CR \<in> set (response_buffer self @ inc)")
    case False
    with True have "snd (read_response inc self) = self\<lparr>response_buffer := response_buffer self @ inc\<rparr>"
      by (simp add: read_response_def Let_def)
    then show ?thesis by blast
  next
    case cr: True
    define buf where "buf = response_buffer self @ inc"
    define k where "k = length (takeWhile (\<lambda>c. c \<noteq> CR) buf)"
    have "snd (read_response inc self) = self\<lparr>response_buffer := drop (k + 1) buf\<rparr>"
      using True cr unfolding read_response_def Let_def buf_def [symmetric] k_def [symmetric]
      by (simp split: if_split)
    then show ?thesis by blast
  qed
qed

lemma read_response_status:
  "current_status (snd (read_response inc self)) = current_status self"
proof -
  obtain b where "snd (read_response inc self) = self\<lparr>response_buffer := b\<rparr>"
    using read_response_shape by blast
  then show ?thesis by simp
qed

lemma send_command_now_status:
  "current_status (snd (send_command_now c d self)) = current_status self"
proof (cases "serial self")
  case None
  then show ?thesis by (simp add: send_command_now_def)
next
  case (Some s)
  show ?thesis
  proof (cases "build_command c d")
    case (Inl e)
    with Some show ?thesis by (simp add: send_command_now_def)
  next
    case (Inr b)
    with Some show ?thesis by (simp add: send_command_now_def)
  qed
qed

lemma connect_status:
  "current_status (snd (connect ok self)) = current_status self"
  by (cases ok) (simp_all add: connect_def Let_def send_command_now_status)

lemma poll_queries_status:
  "current_status (poll_queries pc self) = current_status self"
  by (simp add: poll_queries_def Let_def)

lemma connected_controller_status: "current_status connected_controller = default_status"
  by (simp add: connected_controller_eq initial_state_def)

text \<open>
  C2 (as amended). Of the command-issuing operations, all but four leave the device
  status as it is. \<^verbatim>\<open>set_play_mode\<close> with a known mode writes \<^verbatim>\<open>play_mode\<close>,
  \<^verbatim>\<open>set_repeat\<close> writes \<^verbatim>\<open>repeat_mode\<close>, \<^verbatim>\<open>set_resume_mode\<close> writes
  \<^verbatim>\<open>resume_mode\<close>, and \<^verbatim>\<open>switch_device\<close> with a known device writes
  \<^verbatim>\<open>device\<close>, \<^verbatim>\<open>device_name\<close> and \<^verbatim>\<open>is_tuner\<close>; they write the requested value
  and nothing else. No command-issuing operation notifies the listeners. Reading a
  frame, writing a command to the port, connecting and queueing the status queries leave
  the status alone.
\<close>

theorem status_writers:
  "(\<not> optimistic op \<longrightarrow> current_status (issue op self) = current_status self) \<and>
   notified (issue op self) = notified self \<and>
   current_status (issue (SetPlayMode m) self) =
     (if m \<in> set [''continuous'', ''single'', ''random'']
      then (current_status self)\<lparr>play_mode := m\<rparr> else current_status self) \<and>
   current_status (issue (SetRepeat e) self) = (current_status self)\<lparr>repeat_mode := e\<rparr> \<and>
   current_status (issue (SetResumeMode e) self) = (current_status self)\<lparr>resume_mode := e\<rparr> \<and>
   current_status (issue (SwitchDevice d) self) =
     (if lower d \<in> set [''sd'', ''usb'', ''cd'', ''bluetooth'', ''fm'', ''am'', ''aux'']
      then (current_status self)
             \<lparr>device := lower d, device_name := dict_get device_names (lower d) d,
              is_tuner := (lower d \<in> set [''fm'', ''am''])\<rparr>
      else current_status self) \<and>
   current_status (snd (read_response inc self)) = current_status self \<and>
   current_status (snd (send_command_now c x self)) = current_status self \<and>
   current_status (snd (connect ok self)) = current_status self \<and>
   current_status (poll_queries pc self) = current_status self"
  using plain_ops_keep_status [of op self] ops_never_notify [of op self]
    set_play_mode_status [of m self] set_repeat_status [of e self]
    set_resume_mode_status [of e self] switch_device_status [of d self]
    read_response_status [of inc self] send_command_now_status [of c x self]
    connect_status [of ok self] poll_queries_status [of pc self]
  by simp

theorem status_writers_witness:
  "\<not> optimistic Play \<and>
   current_status (issue Play connected_controller) = current_status connected_controller \<and>
   cmd_queue (issue Play connected_controller) = [(CMD_PLAY, [])]"
  using status_writers [of Play connected_controller]
  by (simp add: play_def send_command_def connected_controller_eq initial_state_def)

text \<open>
  C2 as stated fails: \<^verbatim>\<open>set_repeat(True)\<close> on a freshly connected controller changes
  the field \<^verbatim>\<open>repeat_mode\<close> of the device status.
\<close>

theorem status_writers_counterexample:
  "repeat_mode (current_status connected_controller) = False \<and>
   repeat_mode (current_status (set_repeat True connected_controller)) = True \<and>
   current_status (set_repeat True connected_controller) \<noteq> current_status connected_controller"
proof -
  have a: "repeat_mode (current_status connected_controller) = False"
    by (simp add: connected_controller_status default_status_def)
  have b: "repeat_mode (current_status (set_repeat True connected_controller)) = True"
    by (simp add: set_repeat_status)
  have "current_status (set_repeat True connected_controller) \<noteq> current_status connected_controller"
  proof
    assume "current_status (set_repeat True connected_controller) = current_status connected_controller"
    then have "repeat_mode (current_status (set_repeat True connected_controller)) =
               repeat_mode (current_status connected_controller)" by simp
    with a b show False by simp
  qed
  with a b show ?thesis by simp
qed


section \<open>Health supervision and reconnection\<close>

text \<open>
  The facts below follow one polling thread through passes in which the device is
  silent. The thread that runs \<^verbatim>\<open>_poll_status\<close> is the one stored in
  \<^verbatim>\<open>self.poll_thread\<close>, so the \<^verbatim>\<open>disconnect()\<close> it calls at the threshold
  joins the calling thread and raises before anything is reset; the handler of the loop
  then calls \<^verbatim>\<open>disconnect()\<close> a second time, and that exception ends the thread.
  A \<^verbatim>\<open>disconnect()\<close> from any other thread does close the port, reset the status
  and notify the listeners, and it stops the loop that holds the reconnect branch.
\<close>

lemma read_response_silent:
  assumes "transport_open self" "CR \<notin> set (response_buffer self)"
  shows "read_response [] self = (None, self)"
  using assms by (simp add: read_response_def)

lemma poll_queries_queue:
  "poll_queries pc self = self\<lparr>cmd_queue := cmd_queue (poll_queries pc self)\<rparr>"
  by (simp add: poll_queries_def send_command_def Let_def)

lemma disconnect_self_join:
  assumes "poll_thread self = Some me"
  shows "disconnect me self = (Some RuntimeError, self\<lparr>running := False\<rparr>)"
  using assms by (simp add: disconnect_def Let_def)

lemma poll_except_self_join:
  assumes "poll_thread self = Some me"
    and "max_failures_before_disconnect \<le> consecutive_failures self + 1"
  shows "poll_except me self =
           (Some RuntimeError,
            self\<lparr>consecutive_failures := consecutive_failures self + 1, running := False\<rparr>)"
  using assms by (simp add: poll_except_def Let_def disconnect_self_join)

lemma poll_iteration_silent_below:
  assumes "connected self" "transport_open self" "CR \<notin> set (response_buffer self)"
    and "consecutive_failures self + 1 < max_failures_before_disconnect"
  shows "poll_iteration me (silent t) pc self =
           (None, Suc pc,
            self\<lparr>cmd_queue := cmd_queue (poll_queries pc self),
                 consecutive_failures := consecutive_failures self + 1\<rparr>)"
proof -
  obtain q where q: "poll_queries pc self = self\<lparr>cmd_queue := q\<rparr>"
    using poll_queries_queue by blast
  show ?thesis
    using assms
    by (simp add: poll_iteration_def silent_def read_response_silent q)
qed

lemma poll_iteration_silent_threshold:
  assumes "connected self" "transport_open self" "CR \<notin> set (response_buffer self)"
    and "max_failures_before_disconnect \<le> consecutive_failures self + 1"
    and "poll_thread self = Some me"
  shows "poll_iteration me (silent t) pc self =
           (Some RuntimeError, pc,
            self\<lparr>cmd_queue := cmd_queue (poll_queries pc self),
                 consecutive_failures := consecutive_failures self + 2,
                 running := False\<rparr>)"
proof -
  obtain q where q: "poll_queries pc self = self\<lparr>cmd_queue := q\<rparr>"
    using poll_queries_queue by blast
  let ?s5 = "self\<lparr>cmd_queue := q, consecutive_failures := consecutive_failures self + 1\<rparr>"
  have d: "disconnect me ?s5 = (Some RuntimeError, ?s5\<lparr>running := False\<rparr>)"
    using assms(5) by (intro disconnect_self_join) simp
  have e: "poll_except me (?s5\<lparr>running := False\<rparr>) =
      (Some RuntimeError,
       ?s5\<lparr>running := False, consecutive_failures := consecutive_failures self + 2\<rparr>)"
    using assms(4,5) by (simp add: poll_except_def Let_def disconnect_def max_failures_before_disconnect_def)
  show ?thesis
    using assms(1-4)
    by (simp add: poll_iteration_def silent_def read_response_silent q d e)
qed


lemma transport_open_fields [simp]:
  "transport_open (self\<lparr>cmd_queue := q\<rparr>) = transport_open self"
  "transport_open (self\<lparr>consecutive_failures := n\<rparr>) = transport_open self"
  "transport_open (self\<lparr>running := r\<rparr>) = transport_open self"
  by (simp_all add: transport_open_def)

lemma silence_ends_poll_thread:
  assumes "connected self" "running self" "transport_open self"
    and "CR \<notin> set (response_buffer self)"
    and "poll_thread self = Some me"
    and "consecutive_failures self + int (length ts) = max_failures_before_disconnect"
    and "ts \<noteq> []"
  shows "\<exists>q. poll_loop me (map silent ts @ rest) pc self =
           (Crashed RuntimeError,
            self\<lparr>cmd_queue := q, consecutive_failures := 11, running := False\<rparr>)"
  using assms
proof (induction ts arbitrary: self pc)
  case Nil
  then show ?case by simp
next
  case (Cons t ts)
  show ?case
  proof (cases "ts = []")
    case True
    then have cf: "consecutive_failures self = 9"
      using Cons.prems(6) by (simp add: max_failures_before_disconnect_def)
    have "poll_iteration me (silent t) pc self =
           (Some RuntimeError, pc,
            self\<lparr>cmd_queue := cmd_queue (poll_queries pc self),
                 consecutive_failures := consecutive_failures self + 2,
                 running := False\<rparr>)"
      using Cons.prems(1,3,4,5) cf
      by (intro poll_iteration_silent_threshold) (simp_all add: max_failures_before_disconnect_def)
    then have "poll_loop me (map silent (t # ts) @ rest) pc self =
           (Crashed RuntimeError,
            self\<lparr>cmd_queue := cmd_queue (poll_queries pc self),
                 consecutive_failures := 11, running := False\<rparr>)"
      using Cons.prems(2) cf by simp
    then show ?thesis by blast
  next
    case False
    then have len: "0 < length ts" by simp
    have l1: "int (length (t # ts)) = 1 + int (length ts)" by simp
    have l2: "1 \<le> int (length ts)" using len by linarith
    have below: "consecutive_failures self + 1 < max_failures_before_disconnect"
      using Cons.prems(6) l1 l2 by linarith
    let ?s = "self\<lparr>cmd_queue := cmd_queue (poll_queries pc self),
                 consecutive_failures := consecutive_failures self + 1\<rparr>"
    have step: "poll_iteration me (silent t) pc self = (None, Suc pc, ?s)"
      using Cons.prems(1,3,4) below by (intro poll_iteration_silent_below)
    have "\<exists>q. poll_loop me (map silent ts @ rest) (Suc pc) ?s =
           (Crashed RuntimeError,
            ?s\<lparr>cmd_queue := q, consecutive_failures := 11, running := False\<rparr>)"
      using Cons.prems False by (intro Cons.IH) simp_all
    then obtain q where "poll_loop me (map silent ts @ rest) (Suc pc) ?s =
           (Crashed RuntimeError,
            ?s\<lparr>cmd_queue := q, consecutive_failures := 11, running := False\<rparr>)"
      by blast
    then have "poll_loop me (map silent (t # ts) @ rest) pc self =
           (Crashed RuntimeError,
            self\<lparr>cmd_queue := q, consecutive_failures := 11, running := False\<rparr>)"
      using Cons.prems(2) step by simp
    then show ?thesis by blast
  qed
qed

lemma stopped_loop_exits:
  assumes "\<not> running self"
  shows "poll_loop me inputs pc self = (Exited, self)"
  using assms by (cases inputs) simp_all

lemma disconnect_stops_running: "\<not> running (snd (disconnect me self))"
  by (cases "serial self") (simp_all add: disconnect_def Let_def reset_status_def notify_callbacks_def)

lemma disconnect_other_thread:
  assumes "cmd_thread self \<noteq> Some me" "poll_thread self \<noteq> Some me"
  shows "fst (disconnect me self) = None"
    and "\<not> connected (snd (disconnect me self))"
    and "\<not> transport_open (snd (disconnect me self))"
    and "current_status (snd (disconnect me self)) = default_status"
    and "notified (snd (disconnect me self)) = notified self @ [default_status]"
    and "consecutive_failures (snd (disconnect me self)) = 0"
    and "open_attempts (snd (disconnect me self)) = open_attempts self"
  using assms
  by (cases "serial self";
      simp add: disconnect_def Let_def reset_status_def notify_callbacks_def transport_open_def)+


lemma playing_controller_eq:
  "playing_controller =
     connected_controller
       \<lparr>current_status := default_status\<lparr>mecha_status := ''play''\<rparr>,
        notified := [default_status\<lparr>mecha_status := ''play''\<rparr>]\<rparr>"
  by (simp add: playing_controller_def mecha_status_any_payload notify_callbacks_def upd_def
      dict_get_def status_map_def connected_controller_eq initial_state_def)

lemma playing_controller_fields:
  "connected playing_controller" "running playing_controller"
  "transport_open playing_controller" "response_buffer playing_controller = []"
  "poll_thread playing_controller = Some (Spawned 1)"
  "cmd_thread playing_controller = Some (Spawned 0)"
  "consecutive_failures playing_controller = 0"
  "open_attempts playing_controller = 1"
  "current_status playing_controller \<noteq> default_status"
  by (simp_all add: playing_controller_eq connected_controller_eq initial_state_def
      transport_open_def default_status_def)

lemma silence_on_playing_controller:
  "\<exists>q. poll_loop (Spawned 1) (ten_silent_cycles @ rest) 0 playing_controller =
         (Crashed RuntimeError,
          playing_controller\<lparr>cmd_queue := q, consecutive_failures := 11, running := False\<rparr>)"
  unfolding ten_silent_cycles_def
  by (rule silence_ends_poll_thread)
     (simp_all add: playing_controller_fields max_failures_before_disconnect_def)

lemma send_command_now_open_attempts:
  "open_attempts (snd (send_command_now c d self)) = open_attempts self"
proof (cases "serial self")
  case None
  then show ?thesis by (simp add: send_command_now_def)
next
  case (Some s)
  show ?thesis
  proof (cases "build_command c d")
    case (Inl e)
    with Some show ?thesis by (simp add: send_command_now_def)
  next
    case (Inr b)
    with Some show ?thesis by (simp add: send_command_now_def)
  qed
qed

lemma connect_counts_attempt:
  "open_attempts (snd (connect ok self)) = Suc (open_attempts self)"
  by (cases ok) (simp_all add: connect_def Let_def send_command_now_open_attempts)

lemma reconnect_branch_attempts:
  assumes "\<not> connected self"
    and "reconnect_interval \<le> now inp - last_reconnect_attempt self"
  shows "open_attempts (snd (snd (poll_iteration me inp pc self))) = Suc (open_attempts self)"
proof -
  obtain ok s where c: "connect (open_ok inp) (self\<lparr>last_reconnect_attempt := now inp\<rparr>) = (ok, s)"
    by (cases "connect (open_ok inp) (self\<lparr>last_reconnect_attempt := now inp\<rparr>)")
  have "open_attempts s = Suc (open_attempts self)"
    using connect_counts_attempt [of "open_ok inp" "self\<lparr>last_reconnect_attempt := now inp\<rparr>"] c
    by simp
  then show ?thesis
    using assms c by (simp add: poll_iteration_def Let_def)
qed

lemma frame_resets_failure_counter:
  assumes "connected self"
    and "read_response (incoming inp) self = (Some (command, data), s1)"
    and "handle_response command data s1 = (None, s2)"
  shows "consecutive_failures (snd (snd (poll_iteration me inp pc self))) = 0"
proof -
  obtain q where q: "poll_queries pc (s2\<lparr>consecutive_failures := 0\<rparr>) =
      s2\<lparr>consecutive_failures := 0, cmd_queue := q\<rparr>"
    using poll_queries_queue [of pc "s2\<lparr>consecutive_failures := 0\<rparr>"] by blast
  show ?thesis
    using assms by (simp add: poll_iteration_def q)
qed

text \<open>
  C5. On the controller that is connected and plays, ten consecutive silent passes of
  the poll loop end the polling thread with \<^verbatim>\<open>RuntimeError\<close>: the controller is still
  marked connected, the port is still open, the device status is what it was (not the
  defaults), no listener has been notified, and the failure counter stands at 11.
  (That a pass which decodes a frame sets the counter to 0 is the lemma
  \<open>frame_resets_failure_counter\<close> above.)
\<close>

theorem ten_silent_cycles_outcome:
  "fst (poll_status (Spawned 1) ten_silent_cycles playing_controller) = Crashed RuntimeError \<and>
   connected (snd (poll_status (Spawned 1) ten_silent_cycles playing_controller)) \<and>
   transport_open (snd (poll_status (Spawned 1) ten_silent_cycles playing_controller)) \<and>
   current_status (snd (poll_status (Spawned 1) ten_silent_cycles playing_controller)) =
     current_status playing_controller \<and>
   current_status (snd (poll_status (Spawned 1) ten_silent_cycles playing_controller)) \<noteq>
     default_status \<and>
   notified (snd (poll_status (Spawned 1) ten_silent_cycles playing_controller)) =
     notified playing_controller \<and>
   consecutive_failures (snd (poll_status (Spawned 1) ten_silent_cycles playing_controller)) = 11"
proof -
  obtain q where "poll_loop (Spawned 1) (ten_silent_cycles @ []) 0 playing_controller =
         (Crashed RuntimeError,
          playing_controller\<lparr>cmd_queue := q, consecutive_failures := 11, running := False\<rparr>)"
    using silence_on_playing_controller by blast
  then have "poll_status (Spawned 1) ten_silent_cycles playing_controller =
         (Crashed RuntimeError,
          playing_controller\<lparr>cmd_queue := q, consecutive_failures := 11, running := False\<rparr>)"
    by (simp add: poll_status_def)
  then show ?thesis
    by (simp add: playing_controller_fields)
qed

text \<open>
  C6. After the ten silent passes the polling thread is gone: the two later moments,
  at which the reconnect interval has elapsed and the port would open, are never looked
  at, and the number of attempts to open the port is what it was. After a
  \<^verbatim>\<open>disconnect()\<close> from the main thread the controller is disconnected and the loop
  leaves at once, again without any attempt to reconnect.
\<close>

theorem no_reconnect_after_disconnect:
  "fst (poll_status (Spawned 1) (ten_silent_cycles @ later_cycles) playing_controller) =
     Crashed RuntimeError \<and>
   open_attempts (snd (poll_status (Spawned 1) (ten_silent_cycles @ later_cycles) playing_controller)) =
     open_attempts playing_controller \<and>
   fst (disconnect MainThread playing_controller) = None \<and>
   \<not> connected (snd (disconnect MainThread playing_controller)) \<and>
   poll_status (Spawned 1) later_cycles (snd (disconnect MainThread playing_controller)) =
     (Exited, snd (disconnect MainThread playing_controller))"
proof -
  obtain q where "poll_loop (Spawned 1) (ten_silent_cycles @ later_cycles) 0 playing_controller =
         (Crashed RuntimeError,
          playing_controller\<lparr>cmd_queue := q, consecutive_failures := 11, running := False\<rparr>)"
    using silence_on_playing_controller by blast
  then have a: "poll_status (Spawned 1) (ten_silent_cycles @ later_cycles) playing_controller =
         (Crashed RuntimeError,
          playing_controller\<lparr>cmd_queue := q, consecutive_failures := 11, running := False\<rparr>)"
    by (simp add: poll_status_def)
  have b: "fst (disconnect MainThread playing_controller) = None"
    "\<not> connected (snd (disconnect MainThread playing_controller))"
    by (rule disconnect_other_thread; simp add: playing_controller_fields)+
  have c: "poll_status (Spawned 1) later_cycles (snd (disconnect MainThread playing_controller)) =
     (Exited, snd (disconnect MainThread playing_controller))"
    unfolding poll_status_def
    by (rule stopped_loop_exits) (rule disconnect_stops_running)
  show ?thesis
    using a b c by simp
qed

end
